theory Spec2Isabelle
  imports Complex_Main "HOL-Library.Word"
begin

unbundle bit_operations_syntax

section \<open>Data model of client.c\<close>

text \<open>
  Pointers are natural numbers: a \<open>client_t *\<close> is a key into the table of client
  objects, a \<open>screen_t *\<close> is an index into \<open>globalconf.screens.tab\<close>, and a
  pointer that may be \<open>NULL\<close> is an \<open>option\<close>. An \<open>xcb_window_t\<close> is a number,
  \<open>XCB_NONE\<close> being 0.
\<close>

type_synonym client_ptr = nat
type_synonym screen_ptr = nat
type_synonym window = nat


datatype window_type =
    WINDOW_TYPE_NORMAL
  | WINDOW_TYPE_DESKTOP
  | WINDOW_TYPE_DOCK
  | WINDOW_TYPE_SPLASH
  | WINDOW_TYPE_DIALOG
  | WINDOW_TYPE_MENU
  | WINDOW_TYPE_TOOLBAR
  | WINDOW_TYPE_UTILITY
  | WINDOW_TYPE_DROPDOWN_MENU
  | WINDOW_TYPE_POPUP_MENU
  | WINDOW_TYPE_TOOLTIP
  | WINDOW_TYPE_NOTIFICATION
  | WINDOW_TYPE_COMBO
  | WINDOW_TYPE_DND

text \<open>
  \<open>area_t\<close>: \<open>int16_t x, y\<close> and \<open>uint16_t width, height\<close> (the source copies
  \<open>width\<close> and \<open>height\<close> into \<open>uint16_t\<close> temporaries). The fields are integers;
  every store of a computed value is wrapped by \<open>s16\<close> or \<open>u16\<close>. Arithmetic in
  between is C \<open>int\<close> arithmetic after promotion, written on unbounded integers.
\<close>

record area =
  area_x :: int
  area_y :: int
  area_width :: int
  area_height :: int

definition u16 :: "int \<Rightarrow> int" where
  "u16 v = v mod 65536"

definition s16 :: "int \<Rightarrow> int" where
  "s16 v = (v + 32768) mod 65536 - 32768"

text \<open>C's \<open>%\<close> truncates towards zero: the remainder has the sign of the dividend.\<close>

definition c_rem :: "int \<Rightarrow> int \<Rightarrow> int" where
  "c_rem a b = sgn a * (\<bar>a\<bar> mod \<bar>b\<bar>)"

text \<open>The cast \<open>(int) d\<close> of a double truncates towards zero.\<close>

definition c_trunc :: "real \<Rightarrow> int" where
  "c_trunc d = (if 0 \<le> d then \<lfloor>d\<rfloor> else \<lceil>d\<rceil>)"

text \<open>\<open>xcb_size_hints_t\<close> of the XCB library, and its flag bits.\<close>

record xcb_size_hints_t =
  flags :: "32 word"
  min_width :: int
  min_height :: int
  max_width :: int
  max_height :: int
  width_inc :: int
  height_inc :: int
  min_aspect_num :: int
  min_aspect_den :: int
  max_aspect_num :: int
  max_aspect_den :: int
  base_width :: int
  base_height :: int

definition XCB_SIZE_HINT_P_SIZE :: "32 word" where
  "XCB_SIZE_HINT_P_SIZE = 8"

definition XCB_SIZE_HINT_P_MIN_SIZE :: "32 word" where
  "XCB_SIZE_HINT_P_MIN_SIZE = 16"

definition XCB_SIZE_HINT_P_MAX_SIZE :: "32 word" where
  "XCB_SIZE_HINT_P_MAX_SIZE = 32"

definition XCB_SIZE_HINT_P_RESIZE_INC :: "32 word" where
  "XCB_SIZE_HINT_P_RESIZE_INC = 64"

definition XCB_SIZE_HINT_P_ASPECT :: "32 word" where
  "XCB_SIZE_HINT_P_ASPECT = 128"

definition XCB_SIZE_HINT_BASE_SIZE :: "32 word" where
  "XCB_SIZE_HINT_BASE_SIZE = 256"

record geometries_t =
  internal :: area
  fullscreen :: area
  max_geom :: area

record client =
  win :: window
  invalid :: bool
  screen :: screen_ptr
  phys_screen :: nat
  wtype :: window_type
  isurgent :: bool
  issticky :: bool
  isbanned :: bool
  ishidden :: bool
  isminimized :: bool
  isfullscreen :: bool
  ismaxhoriz :: bool
  ismaxvert :: bool
  isabove :: bool
  isbelow :: bool
  isontop :: bool
  ismodal :: bool
  nofocus :: bool
  size_hints_honor :: bool
  geometry :: area
  geometries :: geometries_t
  border :: int
  border_fs :: int
  size_hints :: xcb_size_hints_t
  transient_for :: "client_ptr option"
  titlebar :: "window option"
  takefocus_proto :: bool

text \<open>
  \<open>titlebar\<close> holds \<open>c->titlebar->sw.window\<close> when a titlebar is attached;
  \<open>takefocus_proto\<close> is whether \<open>WM_TAKE_FOCUS\<close> is among \<open>c->protocols\<close>.
\<close>

record tag_t =
  selected :: bool
  tag_clients :: "client_ptr list"

record screen_t =
  client_focus_of :: "client_ptr option"
  prev_client_focus :: "client_ptr option"
  tags :: "tag_t list"

record wibox_t =
  sw_window :: window
  ontop :: bool

text \<open>
  What leaves the core: requests to the X server and calls of the Lua hooks, in the
  order in which they are issued. A hook runs user code; here it is only recorded.
\<close>

datatype event =
    Hook_property client_ptr string
  | Hook_focus client_ptr
  | Hook_unfocus client_ptr
  | Hook_unmanage client_ptr
  | Hook_clients
  | Xcb_stack_above window window
  | Xcb_configure_geometry window area
  | Xcb_configure_border window int
  | Xcb_map_window window
  | Xcb_unmap_window window
  | Xcb_set_input_focus window
  | Xcb_set_input_focus_root nat
  | Xcb_set_wm_hints_urgency window bool
  | Window_takefocus window
  | Window_state_set window string

record hooks_t =
  hook_focus :: bool
  hook_unfocus :: bool
  hook_unmanage :: bool
  hook_clients :: bool

text \<open>
  \<open>globalconf\<close>. \<open>client_of\<close> is the memory holding the \<open>client_t\<close> objects;
  \<open>clients\<close> and \<open>stack\<close> are the two arrays of pointers into it. A field of
  \<open>hooks\<close> is true when a function is registered (\<open>!= LUA_REFNIL\<close>).
\<close>

record globalconf =
  client_of :: "client_ptr \<Rightarrow> client"
  clients :: "client_ptr list"
  stack :: "client_ptr list"
  screens :: "screen_ptr \<Rightarrow> screen_t"
  screen_focus :: "screen_ptr option"
  client_need_stack_refresh :: bool
  wiboxes :: "wibox_t list"
  hooks :: hooks_t
  events :: "event list"

text \<open>
  Functions of other files that \<open>client.c\<close> calls and whose results the model leaves
  open: the geometry of the display and of a screen, the screen at a coordinate, the
  conversion between the outer and the inner rectangle of a decorated window, and the
  rounding \<open>fp_round\<close> that the machine applies to the exact result of one operation
  on doubles.
\<close>

record collaborators =
  fp_round :: "real \<Rightarrow> real"
  display_area_get :: "nat \<Rightarrow> area"
  screen_area_get :: "screen_ptr \<Rightarrow> bool \<Rightarrow> area"
  screen_getbycoord :: "screen_ptr \<Rightarrow> int \<Rightarrow> int \<Rightarrow> screen_ptr"
  titlebar_geometry_remove :: "window option \<Rightarrow> int \<Rightarrow> area \<Rightarrow> area"
  titlebar_geometry_add :: "window option \<Rightarrow> int \<Rightarrow> area \<Rightarrow> area"

definition emit :: "event \<Rightarrow> globalconf \<Rightarrow> globalconf" where
  "emit e st = st\<lparr>events := events st @ [e]\<rparr>"

definition update_client :: "client_ptr \<Rightarrow> (client \<Rightarrow> client) \<Rightarrow> globalconf \<Rightarrow> globalconf" where
  "update_client c f st = st\<lparr>client_of := (client_of st)(c := f (client_of st c))\<rparr>"

definition update_screen :: "screen_ptr \<Rightarrow> (screen_t \<Rightarrow> screen_t) \<Rightarrow> globalconf \<Rightarrow> globalconf" where
  "update_screen s f st = st\<lparr>screens := (screens st)(s := f (screens st s))\<rparr>"

text \<open>
  Modelled from the spec: the macro \<open>hook_property\<close> is not part of \<open>client.c\<close>; it
  fires the property-changed notification tagged with the field name.
\<close>

definition hook_property :: "client_ptr \<Rightarrow> string \<Rightarrow> globalconf \<Rightarrow> globalconf" where
  "hook_property c prop st = emit (Hook_property c prop) st"

text \<open>
  Modelled from the spec: \<open>client_stack\<close> is declared outside \<open>client.c\<close>; it marks
  the stacking engine dirty.
\<close>

definition client_stack :: "globalconf \<Rightarrow> globalconf" where
  "client_stack st = st\<lparr>client_need_stack_refresh := True\<rparr>"

section \<open>Geometry hints\<close>

text \<open>
  Modelled from the spec: the macro \<open>unsigned_subtract\<close> is not part of \<open>client.c\<close>;
  it subtracts and floors at zero instead of underflowing.
\<close>

definition unsigned_subtract :: "int \<Rightarrow> int \<Rightarrow> int" where
  "unsigned_subtract a b = (if a < b then 0 else a - b)"

text \<open>Lines 601-613: the base size is the min size if not specified.\<close>

definition hints_base :: "xcb_size_hints_t \<Rightarrow> int \<times> int" where
  "hints_base h =
     (if flags h AND XCB_SIZE_HINT_P_SIZE \<noteq> 0 then (base_width h, base_height h)
      else if flags h AND XCB_SIZE_HINT_P_MIN_SIZE \<noteq> 0 then (min_width h, min_height h)
      else (0, 0))"

text \<open>Lines 615-627: the min size is the base size if not specified.\<close>

definition hints_min :: "xcb_size_hints_t \<Rightarrow> int \<times> int" where
  "hints_min h =
     (if flags h AND XCB_SIZE_HINT_P_MIN_SIZE \<noteq> 0 then (min_width h, min_height h)
      else if flags h AND XCB_SIZE_HINT_P_SIZE \<noteq> 0 then (base_width h, base_height h)
      else (0, 0))"

text \<open>
  Lines 629-657: the aspect ratio. Every operation on doubles is the exact operation
  followed by the rounding \<open>rnd\<close>; the conversion of an \<open>int\<close> to a double is exact.
\<close>

definition hints_aspect :: "(real \<Rightarrow> real) \<Rightarrow> xcb_size_hints_t \<Rightarrow> int \<Rightarrow> int \<Rightarrow> area \<Rightarrow> area" where
  "hints_aspect rnd h basew baseh g =
     (if flags h AND XCB_SIZE_HINT_P_ASPECT \<noteq> 0
         \<and> min_aspect_num h > 0
         \<and> min_aspect_den h > 0
         \<and> area_height g - baseh > 0
         \<and> area_width g - basew > 0
      then
        let dx = real_of_int (area_width g - basew);
            dy = real_of_int (area_height g - baseh);
            mn = rnd (real_of_int (min_aspect_num h) / real_of_int (min_aspect_den h));
            mx = rnd (real_of_int (max_aspect_num h) / real_of_int (min_aspect_den h));
            ratio = rnd (dx / dy)
        in if mx > 0 \<and> mn > 0 \<and> ratio > 0 then
             if ratio < mn then
               let dy' = rnd (rnd (rnd (dx * mn) + dy) / rnd (rnd (mn * mn) + 1));
                   dx' = rnd (dy' * mn)
               in g\<lparr>area_width := u16 (c_trunc dx' + basew),
                     area_height := u16 (c_trunc dy' + baseh)\<rparr>
             else if ratio > mx then
               let dy' = rnd (rnd (rnd (dx * mn) + dy) / rnd (rnd (mx * mx) + 1));
                   dx' = rnd (dy' * mn)
               in g\<lparr>area_width := u16 (c_trunc dx' + basew),
                     area_height := u16 (c_trunc dy' + baseh)\<rparr>
             else g
           else g
      else g)"

text \<open>Lines 659-670: clamp to the min size, then to the max size.\<close>

definition hints_clamp :: "xcb_size_hints_t \<Rightarrow> int \<Rightarrow> int \<Rightarrow> area \<Rightarrow> area" where
  "hints_clamp h minw minh g =
     (let g1 = (if minw \<noteq> 0 then g\<lparr>area_width := u16 (max (area_width g) minw)\<rparr> else g);
          g2 = (if minh \<noteq> 0 then g1\<lparr>area_height := u16 (max (area_height g1) minh)\<rparr> else g1)
      in if flags h AND XCB_SIZE_HINT_P_MAX_SIZE \<noteq> 0 then
           let g3 = (if max_width h \<noteq> 0
                     then g2\<lparr>area_width := u16 (min (area_width g2) (max_width h))\<rparr> else g2)
           in (if max_height h \<noteq> 0
               then g3\<lparr>area_height := u16 (min (area_height g3) (max_height h))\<rparr> else g3)
         else g2)"

text \<open>Lines 672-680: the resize increments, on \<open>uint16_t\<close> temporaries.\<close>

definition hints_resize_inc :: "xcb_size_hints_t \<Rightarrow> int \<Rightarrow> int \<Rightarrow> area \<Rightarrow> area" where
  "hints_resize_inc h basew baseh g =
     (if flags h AND (XCB_SIZE_HINT_P_RESIZE_INC OR XCB_SIZE_HINT_BASE_SIZE) \<noteq> 0
         \<and> width_inc h \<noteq> 0 \<and> height_inc h \<noteq> 0
      then
        let t1 = u16 (area_width g);
            t2 = u16 (area_height g);
            t1' = u16 (unsigned_subtract t1 basew);
            t2' = u16 (unsigned_subtract t2 baseh)
        in g\<lparr>area_width := u16 (area_width g - c_rem t1' (width_inc h)),
              area_height := u16 (area_height g - c_rem t2' (height_inc h))\<rparr>
      else g)"

definition client_geometry_hints :: "collaborators \<Rightarrow> client \<Rightarrow> area \<Rightarrow> area" where
  "client_geometry_hints env c geom =
     (let h = size_hints c;
          (basew, baseh) = hints_base h;
          (minw, minh) = hints_min h
      in hints_resize_inc h basew baseh
           (hints_clamp h minw minh
              (hints_aspect (fp_round env) h basew baseh geom)))"

section \<open>Resizing and the border\<close>

text \<open>
  Modelled from the spec: \<open>screen_client_moveto\<close> is not part of \<open>client.c\<close>; the
  client migrates to the region that contains its new position, its tags untouched.
\<close>

definition screen_client_moveto :: "client_ptr \<Rightarrow> screen_ptr \<Rightarrow> globalconf \<Rightarrow> globalconf" where
  "screen_client_moveto c new_screen st = update_client c (\<lambda>k. k\<lparr>screen := new_screen\<rparr>) st"

text \<open>
  Lines 698-714 of \<open>client_resize\<close>: the off-screen fixes, the removal of titlebar and
  border, and the size hints if requested. The result is the local
  \<open>geometry_internal\<close> that the rest of \<open>client_resize\<close> tests and stores.
\<close>

definition resize_geometry_internal :: "collaborators \<Rightarrow> client \<Rightarrow> area \<Rightarrow> bool \<Rightarrow> area" where
  "resize_geometry_internal env cl geom hints =
     (let da = display_area_get env (phys_screen cl);
          g1 = (if area_x geom > area_width da
                then geom\<lparr>area_x := s16 (area_width da - area_width geom)\<rparr> else geom);
          g2 = (if area_y g1 > area_height da
                then g1\<lparr>area_y := s16 (area_height da - area_height g1)\<rparr> else g1);
          g3 = (if area_x g2 + area_width g2 < 0 then g2\<lparr>area_x := 0\<rparr> else g2);
          g4 = (if area_y g3 + area_height g3 < 0 then g3\<lparr>area_y := 0\<rparr> else g3);
          gi = titlebar_geometry_remove env (titlebar cl) (border cl) g4
      in if hints then client_geometry_hints env cl gi else gi)"

text \<open>
  \<open>client_resize\<close> returns the new state and whether an actual resize occurred.
  \<open>titlebar_update_geometry\<close> touches the titlebar's own window only.
\<close>

definition client_resize :: "collaborators \<Rightarrow> globalconf \<Rightarrow> client_ptr \<Rightarrow> area \<Rightarrow> bool \<Rightarrow> globalconf \<times> bool" where
  "client_resize env st c geom hints =
     (let cl = client_of st c;
          geometry_internal = resize_geometry_internal env cl geom hints
      in if area_width geometry_internal = 0 \<or> area_height geometry_internal = 0 then (st, False)
         else
           let geom' = titlebar_geometry_add env (titlebar cl) (border cl) geometry_internal
           in if area_x (internal (geometries cl)) \<noteq> area_x geometry_internal
                 \<or> area_y (internal (geometries cl)) \<noteq> area_y geometry_internal
                 \<or> area_width (internal (geometries cl)) \<noteq> area_width geometry_internal
                 \<or> area_height (internal (geometries cl)) \<noteq> area_height geometry_internal
              then
                let new_screen = screen_getbycoord env (screen cl)
                                   (area_x geometry_internal) (area_y geometry_internal);
                    st1 = update_client c
                            (\<lambda>k. k\<lparr>geometries := (geometries k)\<lparr>internal :=
                                       (internal (geometries k))
                                         \<lparr>area_x := area_x geometry_internal,
                                          area_y := area_y geometry_internal,
                                          area_width := area_width geometry_internal,
                                          area_height := area_height geometry_internal\<rparr>\<rparr>\<rparr>) st;
                    st2 = update_client c (\<lambda>k. k\<lparr>geometry := geom'\<rparr>) st1;
                    st3 = emit (Xcb_configure_geometry (win cl) geometry_internal) st2;
                    st4 = screen_client_moveto c new_screen st3;
                    st5 = hook_property c ''geometry'' st4
                in (st5, True)
              else (st, False))"

definition client_setborder :: "globalconf \<Rightarrow> client_ptr \<Rightarrow> int \<Rightarrow> globalconf" where
  "client_setborder st c width =
     (let cl = client_of st c
      in if width > 0 \<and> (wtype cl = WINDOW_TYPE_DOCK
                          \<or> wtype cl = WINDOW_TYPE_SPLASH
                          \<or> wtype cl = WINDOW_TYPE_DESKTOP
                          \<or> isfullscreen cl) then st
         else if width = border cl \<or> width < 0 then st
         else
           let st1 = update_client c
                       (\<lambda>k. k\<lparr>geometry := (geometry k)
                                \<lparr>area_width := u16 (area_width (geometry k) - 2 * border k),
                                 area_height := u16 (area_height (geometry k) - 2 * border k)\<rparr>\<rparr>) st;
               st2 = update_client c (\<lambda>k. k\<lparr>border := width\<rparr>) st1;
               st3 = emit (Xcb_configure_border (win cl) width) st2;
               st4 = update_client c
                       (\<lambda>k. k\<lparr>geometry := (geometry k)
                                \<lparr>area_width := u16 (area_width (geometry k) + 2 * border k),
                                 area_height := u16 (area_height (geometry k) + 2 * border k)\<rparr>\<rparr>) st3
           in hook_property c ''border_width'' st4)"

section \<open>The setters\<close>

text \<open>
  The EWMH updates (\<open>ewmh_client_update_hints\<close> and the like) and \<open>client_need_reban\<close>
  write X properties and schedule a later pass; they change nothing of the state
  below and are left out.
\<close>

definition client_seturgent :: "globalconf \<Rightarrow> client_ptr \<Rightarrow> bool \<Rightarrow> globalconf" where
  "client_seturgent st c urgent =
     (if isurgent (client_of st c) \<noteq> urgent then
        let st1 = update_client c (\<lambda>k. k\<lparr>isurgent := urgent\<rparr>) st;
            st2 = emit (Xcb_set_wm_hints_urgency (win (client_of st1 c)) urgent) st1
        in hook_property c ''urgent'' st2
      else st)"

definition client_setminimized :: "globalconf \<Rightarrow> client_ptr \<Rightarrow> bool \<Rightarrow> globalconf" where
  "client_setminimized st c s =
     (if isminimized (client_of st c) \<noteq> s then
        let st1 = update_client c (\<lambda>k. k\<lparr>isminimized := s\<rparr>) st;
            st2 = (if s then emit (Window_state_set (win (client_of st1 c)) ''ICONIC'') st1
                   else emit (Window_state_set (win (client_of st1 c)) ''NORMAL'') st1)
        in hook_property c ''minimized'' st2
      else st)"

definition client_setsticky :: "globalconf \<Rightarrow> client_ptr \<Rightarrow> bool \<Rightarrow> globalconf" where
  "client_setsticky st c s =
     (if issticky (client_of st c) \<noteq> s then
        let st1 = update_client c (\<lambda>k. k\<lparr>issticky := s\<rparr>) st
        in hook_property c ''sticky'' st1
      else st)"

definition client_setmodal :: "globalconf \<Rightarrow> client_ptr \<Rightarrow> bool \<Rightarrow> globalconf" where
  "client_setmodal st c s =
     (if ismodal (client_of st c) \<noteq> s then
        let st1 = update_client c (\<lambda>k. k\<lparr>ismodal := s\<rparr>) st;
            st2 = client_stack st1
        in hook_property c ''modal'' st2
      else st)"

lemma is_measure_of_bool [measure_function]: "is_measure (of_bool :: bool \<Rightarrow> nat)"
  by (rule is_measure_trivial)

text \<open>
  The six setters that call one another. A call with \<open>s\<close> true only calls setters with
  \<open>false\<close>, and a call with \<open>false\<close> calls none. \<open>titlebar_ban\<close> unmaps the titlebar's
  own window only.
\<close>

function client_setfullscreen :: "collaborators \<Rightarrow> globalconf \<Rightarrow> client_ptr \<Rightarrow> bool \<Rightarrow> globalconf"
  and client_setmaxhoriz :: "collaborators \<Rightarrow> globalconf \<Rightarrow> client_ptr \<Rightarrow> bool \<Rightarrow> globalconf"
  and client_setmaxvert :: "collaborators \<Rightarrow> globalconf \<Rightarrow> client_ptr \<Rightarrow> bool \<Rightarrow> globalconf"
  and client_setabove :: "collaborators \<Rightarrow> globalconf \<Rightarrow> client_ptr \<Rightarrow> bool \<Rightarrow> globalconf"
  and client_setbelow :: "collaborators \<Rightarrow> globalconf \<Rightarrow> client_ptr \<Rightarrow> bool \<Rightarrow> globalconf"
  and client_setontop :: "collaborators \<Rightarrow> globalconf \<Rightarrow> client_ptr \<Rightarrow> bool \<Rightarrow> globalconf"
where
  "client_setfullscreen env st c s =
     (if isfullscreen (client_of st c) \<noteq> s then
        let st0 = update_client c (\<lambda>k. k\<lparr>isfullscreen := s\<rparr>) st;
            st9 =
              (if s then
                 let st1 = client_setmaxhoriz env st0 c False;
                     st2 = client_setmaxvert env st1 c False;
                     st3 = client_setbelow env st2 c False;
                     st4 = client_setabove env st3 c False;
                     st5 = client_setontop env st4 c False;
                     geom = screen_area_get env (screen (client_of st5 c)) False;
                     st6 = update_client c
                             (\<lambda>k. k\<lparr>geometries := (geometries k)\<lparr>fullscreen := geometry k\<rparr>\<rparr>) st5;
                     st7 = update_client c (\<lambda>k. k\<lparr>border_fs := border k\<rparr>) st6;
                     st8 = client_setborder st7 c 0
                 in fst (client_resize env st8 c geom False)
               else
                 let geom = fullscreen (geometries (client_of st0 c));
                     st1 = client_setborder st0 c (border_fs (client_of st0 c))
                 in fst (client_resize env st1 c geom False))
        in hook_property c ''fullscreen'' (client_stack st9)
      else st)"
| "client_setmaxhoriz env st c s =
     (if ismaxhoriz (client_of st c) \<noteq> s then
        let st0 = update_client c (\<lambda>k. k\<lparr>ismaxhoriz := s\<rparr>) st;
            (st2, geom) =
              (if s then
                 let st1 = client_setfullscreen env st0 c False;
                     cl = client_of st1 c;
                     g = (screen_area_get env (screen cl) True)
                           \<lparr>area_y := area_y (geometry cl), area_height := area_height (geometry cl)\<rparr>
                 in (update_client c
                       (\<lambda>k. k\<lparr>geometries := (geometries k)\<lparr>max_geom := (max_geom (geometries k))
                                  \<lparr>area_x := area_x (geometry k),
                                   area_width := area_width (geometry k)\<rparr>\<rparr>\<rparr>) st1, g)
               else
                 let cl = client_of st0 c
                 in (st0, (geometry cl)\<lparr>area_x := area_x (max_geom (geometries cl)),
                                          area_width := area_width (max_geom (geometries cl))\<rparr>));
            st3 = fst (client_resize env st2 c geom (size_hints_honor (client_of st2 c)))
        in hook_property c ''maximized_horizontal'' (client_stack st3)
      else st)"
| "client_setmaxvert env st c s =
     (if ismaxvert (client_of st c) \<noteq> s then
        let st0 = update_client c (\<lambda>k. k\<lparr>ismaxvert := s\<rparr>) st;
            (st2, geom) =
              (if s then
                 let st1 = client_setfullscreen env st0 c False;
                     cl = client_of st1 c;
                     g = (screen_area_get env (screen cl) True)
                           \<lparr>area_x := area_x (geometry cl), area_width := area_width (geometry cl)\<rparr>
                 in (update_client c
                       (\<lambda>k. k\<lparr>geometries := (geometries k)\<lparr>max_geom := (max_geom (geometries k))
                                  \<lparr>area_y := area_y (geometry k),
                                   area_height := area_height (geometry k)\<rparr>\<rparr>\<rparr>) st1, g)
               else
                 let cl = client_of st0 c
                 in (st0, (geometry cl)\<lparr>area_y := area_y (max_geom (geometries cl)),
                                          area_height := area_height (max_geom (geometries cl))\<rparr>));
            st3 = fst (client_resize env st2 c geom (size_hints_honor (client_of st2 c)))
        in hook_property c ''maximized_vertical'' (client_stack st3)
      else st)"
| "client_setabove env st c s =
     (if isabove (client_of st c) \<noteq> s then
        let st3 =
              (if s then
                 let st1 = client_setbelow env st c False;
                     st2 = client_setontop env st1 c False
                 in client_setfullscreen env st2 c False
               else st);
            st4 = update_client c (\<lambda>k. k\<lparr>isabove := s\<rparr>) st3
        in hook_property c ''above'' (client_stack st4)
      else st)"
| "client_setbelow env st c s =
     (if isbelow (client_of st c) \<noteq> s then
        let st3 =
              (if s then
                 let st1 = client_setabove env st c False;
                     st2 = client_setontop env st1 c False
                 in client_setfullscreen env st2 c False
               else st);
            st4 = update_client c (\<lambda>k. k\<lparr>isbelow := s\<rparr>) st3
        in hook_property c ''below'' (client_stack st4)
      else st)"
| "client_setontop env st c s =
     (if isontop (client_of st c) \<noteq> s then
        let st3 =
              (if s then
                 let st1 = client_setabove env st c False;
                     st2 = client_setbelow env st1 c False
                 in client_setfullscreen env st2 c False
               else st);
            st4 = update_client c (\<lambda>k. k\<lparr>isontop := s\<rparr>) st3
        in hook_property c ''ontop'' (client_stack st4)
      else st)"
  by pat_completeness auto
termination
  by lexicographic_order

declare client_setfullscreen.simps [simp del] client_setmaxhoriz.simps [simp del]
  client_setmaxvert.simps [simp del] client_setabove.simps [simp del]
  client_setbelow.simps [simp del] client_setontop.simps [simp del]

section \<open>Focus\<close>

text \<open>
  Modelled from the spec: \<open>is_client_tagged\<close> and \<open>untag_client\<close> are not part of
  \<open>client.c\<close>; a tag knows the clients it tags.
\<close>

definition is_client_tagged :: "client_ptr \<Rightarrow> tag_t \<Rightarrow> bool" where
  "is_client_tagged c t = (c \<in> set (tag_clients t))"

definition untag_client :: "client_ptr \<Rightarrow> tag_t \<Rightarrow> tag_t" where
  "untag_client c t = t\<lparr>tag_clients := removeAll c (tag_clients t)\<rparr>"

definition client_maybevisible :: "globalconf \<Rightarrow> client_ptr \<Rightarrow> screen_ptr \<Rightarrow> bool" where
  "client_maybevisible st c s =
     (if screen (client_of st c) = s then
        if issticky (client_of st c) \<or> wtype (client_of st c) = WINDOW_TYPE_DESKTOP then True
        else list_ex (\<lambda>t. selected t \<and> is_client_tagged c t) (tags (screens st s))
      else False)"

definition client_unfocus_update :: "globalconf \<Rightarrow> client_ptr \<Rightarrow> globalconf" where
  "client_unfocus_update st c =
     (let st1 = update_screen (phys_screen (client_of st c)) (\<lambda>s. s\<lparr>client_focus_of := None\<rparr>) st
      in if hook_unfocus (hooks st1) then emit (Hook_unfocus c) st1 else st1)"

definition client_unfocus :: "globalconf \<Rightarrow> client_ptr \<Rightarrow> globalconf" where
  "client_unfocus st c =
     client_unfocus_update (emit (Xcb_set_input_focus_root (phys_screen (client_of st c))) st) c"

definition client_setfocus :: "globalconf \<Rightarrow> client_ptr \<Rightarrow> bool \<Rightarrow> globalconf" where
  "client_setfocus st c set_input_focus =
     (let takefocus = takefocus_proto (client_of st c);
          st1 = (if set_input_focus then emit (Xcb_set_input_focus (win (client_of st c))) st else st)
      in if takefocus then emit (Window_takefocus (win (client_of st c))) st1 else st1)"

definition client_unban :: "globalconf \<Rightarrow> client_ptr \<Rightarrow> globalconf" where
  "client_unban st c =
     (if isbanned (client_of st c) then
        update_client c (\<lambda>k. k\<lparr>isbanned := False\<rparr>) (emit (Xcb_map_window (win (client_of st c))) st)
      else st)"

datatype error = Null_dereference

text \<open>
  \<open>client_focus_update\<close> and \<open>client_focus\<close> call each other. Reading a field through
  a \<open>NULL\<close> pointer is the error \<open>Null_dereference\<close>. The entries of
  \<open>globalconf.clients\<close> are never \<open>NULL\<close>, so the \<open>return\<close> of line 310 is never taken:
  with \<open>c\<close> \<open>NULL\<close>, either \<open>c\<close> becomes the first client or, the array being empty,
  \<open>c\<close> stays \<open>NULL\<close> and line 312 reads \<open>c->screen\<close>.
\<close>

function client_focus_update :: "globalconf \<Rightarrow> client_ptr \<Rightarrow> error + globalconf"
  and client_focus :: "globalconf \<Rightarrow> client_ptr option \<Rightarrow> error + globalconf"
where
  "client_focus_update st c =
     (if \<not> client_maybevisible st c (screen (client_of st c)) then
        (case screen_focus st of
           None \<Rightarrow> Inl Null_dereference
         | Some sf \<Rightarrow> client_focus st (prev_client_focus (screens st sf)))
      else
        let focused = (case screen_focus st of
                         None \<Rightarrow> None
                       | Some sf \<Rightarrow> client_focus_of (screens st sf))
        in if focused = Some c then Inr st
           else
             let st1 = (case focused of None \<Rightarrow> st | Some f \<Rightarrow> client_unfocus_update st f);
                 st2 = update_client c (\<lambda>k. k\<lparr>ishidden := False\<rparr>) st1;
                 st3 = client_setminimized st2 c False;
                 st4 = client_unban st3 c;
                 sf' = phys_screen (client_of st4 c);
                 st5 = st4\<lparr>screen_focus := Some sf'\<rparr>;
                 st6 = update_screen sf' (\<lambda>s. s\<lparr>prev_client_focus := Some c\<rparr>) st5;
                 st7 = update_screen sf' (\<lambda>s. s\<lparr>client_focus_of := Some c\<rparr>) st6;
                 st8 = client_seturgent st7 c False
             in Inr (if hook_focus (hooks st8) then emit (Hook_focus c) st8 else st8))"
| "client_focus st copt =
     (case (case copt of
              None \<Rightarrow> (case clients st of [] \<Rightarrow> None | c0 # _ \<Rightarrow> Some c0)
            | Some c \<Rightarrow> Some c) of
        None \<Rightarrow> Inl Null_dereference
      | Some c \<Rightarrow>
          if \<not> client_maybevisible st c (screen (client_of st c)) then Inr st
          else if \<not> nofocus (client_of st c) then
            (case client_focus_update st c of
               Inl e \<Rightarrow> Inl e
             | Inr st' \<Rightarrow> Inr (client_setfocus st' c (\<not> nofocus (client_of st' c))))
          else Inr (client_setfocus st c (\<not> nofocus (client_of st c))))"
  by pat_completeness auto
termination
  by (relation "measure (\<lambda>x. case x of
        Inl (st, c) \<Rightarrow> (if client_maybevisible st c (screen (client_of st c)) then 0 else 2)
      | Inr _ \<Rightarrow> 1)") auto

declare client_focus_update.simps [simp del] client_focus.simps [simp del]

section \<open>Stacking\<close>









section \<open>Unmanaging\<close>

text \<open>
  Modelled from the spec: \<open>stack_client_remove\<close> is not part of \<open>client.c\<close>; it
  removes the client from the stack, so that the stack no longer holds it.
\<close>

definition stack_client_remove :: "client_ptr \<Rightarrow> globalconf \<Rightarrow> globalconf" where
  "stack_client_remove c st = st\<lparr>stack := removeAll c (stack st)\<rparr>"

text \<open>
  \<open>client_unmanage\<close>, block by block. Lines 1024-1030: the clients that are transient
  for \<open>c\<close> lose the reference.
\<close>

definition unmanage_reset_transient :: "client_ptr \<Rightarrow> globalconf \<Rightarrow> globalconf" where
  "unmanage_reset_transient c st =
     fold (\<lambda>tc sta.
             if transient_for (client_of sta tc) = Some c
             then update_client tc (\<lambda>k. k\<lparr>transient_for := None\<rparr>) sta
             else sta)
          (clients st) st"

text \<open>Lines 1032-1036: the focus fields of \<open>screens.tab[c->phys_screen]\<close>.\<close>

definition unmanage_reset_focus :: "client_ptr \<Rightarrow> globalconf \<Rightarrow> globalconf" where
  "unmanage_reset_focus c st =
     (let ps = phys_screen (client_of st c);
          st1 = (if prev_client_focus (screens st ps) = Some c
                 then update_screen ps (\<lambda>s. s\<lparr>prev_client_focus := None\<rparr>) st else st)
      in if client_focus_of (screens st1 ps) = Some c then client_unfocus st1 c else st1)"

text \<open>
  Lines 1038-1047: the client leaves \<open>globalconf.clients\<close> (the first entry equal to it),
  the stack, and the tags of the screen it was on when \<open>client_unmanage\<close> was entered.
\<close>

definition unmanage_remove :: "client_ptr \<Rightarrow> screen_ptr \<Rightarrow> globalconf \<Rightarrow> globalconf" where
  "unmanage_remove c tags_screen st =
     update_screen tags_screen (\<lambda>s. s\<lparr>tags := map (untag_client c) (tags s)\<rparr>)
       (stack_client_remove c (st\<lparr>clients := remove1 c (clients st)\<rparr>))"

text \<open>Lines 1049-1058: the hooks, if registered.\<close>

definition unmanage_hooks :: "client_ptr \<Rightarrow> globalconf \<Rightarrow> globalconf" where
  "unmanage_hooks c st =
     (let st1 = (if hook_unmanage (hooks st) then emit (Hook_unmanage c) st else st)
      in if hook_clients (hooks st1) then emit Hook_clients st1 else st1)"

text \<open>Lines 1060-1068: the window goes to the withdrawn state.\<close>

definition unmanage_withdraw :: "client_ptr \<Rightarrow> globalconf \<Rightarrow> globalconf" where
  "unmanage_withdraw c st = emit (Window_state_set (win (client_of st c)) ''WITHDRAWN'') st"

text \<open>
  The whole of \<open>client_unmanage\<close>; line 1075 marks the client invalid. The detaching
  of the titlebar and the release of the Lua reference are left out.
\<close>

definition client_unmanage :: "globalconf \<Rightarrow> client_ptr \<Rightarrow> globalconf" where
  "client_unmanage st c =
     (let tags_screen = screen (client_of st c)
      in update_client c (\<lambda>k. k\<lparr>invalid := True\<rparr>)
           (unmanage_withdraw c
              (unmanage_hooks c
                 (unmanage_remove c tags_screen
                    (unmanage_reset_focus c
                       (unmanage_reset_transient c st))))))"

section \<open>Auxiliary predicates and example states\<close>

text \<open>At most one of the four special-layer flags of a client is set.\<close>

definition at_most_one_layer :: "client \<Rightarrow> bool" where
  "at_most_one_layer k =
     (\<not> (isontop k \<and> isabove k) \<and> \<not> (isontop k \<and> isbelow k) \<and> \<not> (isontop k \<and> isfullscreen k)
      \<and> \<not> (isabove k \<and> isbelow k) \<and> \<not> (isabove k \<and> isfullscreen k)
      \<and> \<not> (isbelow k \<and> isfullscreen k))"

text \<open>
  One operation on doubles, rounded to nearest, is off by a relative error of at most
  2 to the power -53; exact arithmetic, \<open>\<lambda>v. v\<close>, is the limit case.
\<close>

definition fp_accurate :: "(real \<Rightarrow> real) \<Rightarrow> bool" where
  "fp_accurate rnd = (\<forall>v. \<bar>rnd v - v\<bar> \<le> \<bar>v\<bar> / 2 ^ 53)"

text \<open>
  Example states: two managed clients 1 and 2 with windows 101 and 102 on screen 0,
  geometry 100x100 at the origin, no border, no titlebar, no size hints.
\<close>

definition example_area :: area where
  "example_area = \<lparr>area_x = 0, area_y = 0, area_width = 100, area_height = 100\<rparr>"

definition example_hints :: xcb_size_hints_t where
  "example_hints =
     \<lparr>flags = 0, min_width = 0, min_height = 0, max_width = 0, max_height = 0,
      width_inc = 0, height_inc = 0, min_aspect_num = 0, min_aspect_den = 0,
      max_aspect_num = 0, max_aspect_den = 0, base_width = 0, base_height = 0\<rparr>"

definition example_client :: client where
  "example_client =
     \<lparr>win = 0, invalid = False, screen = 0, phys_screen = 0, wtype = WINDOW_TYPE_NORMAL,
      isurgent = False, issticky = False, isbanned = False, ishidden = False,
      isminimized = False, isfullscreen = False, ismaxhoriz = False, ismaxvert = False,
      isabove = False, isbelow = False, isontop = False, ismodal = False, nofocus = False,
      size_hints_honor = True, geometry = example_area,
      geometries = \<lparr>internal = example_area, fullscreen = example_area, max_geom = example_area\<rparr>,
      border = 0, border_fs = 0, size_hints = example_hints, transient_for = None,
      titlebar = None, takefocus_proto = False\<rparr>"

definition example_env :: collaborators where
  "example_env =
     \<lparr>fp_round = (\<lambda>v. v),
      display_area_get = (\<lambda>_. \<lparr>area_x = 0, area_y = 0, area_width = 1280, area_height = 1024\<rparr>),
      screen_area_get = (\<lambda>_ _. \<lparr>area_x = 0, area_y = 0, area_width = 1280, area_height = 1024\<rparr>),
      screen_getbycoord = (\<lambda>s _ _. s),
      titlebar_geometry_remove =
        (\<lambda>_ b g. g\<lparr>area_width := u16 (area_width g - 2 * b), area_height := u16 (area_height g - 2 * b)\<rparr>),
      titlebar_geometry_add =
        (\<lambda>_ b g. g\<lparr>area_width := u16 (area_width g + 2 * b), area_height := u16 (area_height g + 2 * b)\<rparr>)\<rparr>"

definition example_conf :: globalconf where
  "example_conf =
     \<lparr>client_of = (\<lambda>p. example_client\<lparr>win := 100 + p\<rparr>),
      clients = [1, 2], stack = [1, 2],
      screens = (\<lambda>_. \<lparr>client_focus_of = None, prev_client_focus = None, tags = []\<rparr>),
      screen_focus = None, client_need_stack_refresh = False, wiboxes = [],
      hooks = \<lparr>hook_focus = True, hook_unfocus = True, hook_unmanage = True, hook_clients = True\<rparr>,
      events = []\<rparr>"

definition dock_conf :: globalconf where
  "dock_conf = update_client 1 (\<lambda>k. k\<lparr>wtype := WINDOW_TYPE_DOCK, border := 2\<rparr>) example_conf"

definition inc_hints :: xcb_size_hints_t where
  "inc_hints = example_hints\<lparr>flags := XCB_SIZE_HINT_P_RESIZE_INC, width_inc := 10, height_inc := 10\<rparr>"

definition aspect_hints :: xcb_size_hints_t where
  "aspect_hints = example_hints\<lparr>flags := XCB_SIZE_HINT_P_ASPECT, min_aspect_num := 4,
     min_aspect_den := 3, max_aspect_num := 4, max_aspect_den := 3\<rparr>"

definition aspect_client :: client where
  "aspect_client = example_client\<lparr>size_hints := aspect_hints\<rparr>"

definition saturating_hints :: xcb_size_hints_t where
  "saturating_hints = example_hints\<lparr>flags := XCB_SIZE_HINT_P_RESIZE_INC, width_inc := 7, height_inc := 7\<rparr>"

definition negative_base_hints :: xcb_size_hints_t where
  "negative_base_hints = example_hints\<lparr>flags := XCB_SIZE_HINT_P_SIZE OR XCB_SIZE_HINT_P_RESIZE_INC,
     width_inc := 10, height_inc := 10, base_width := - 5\<rparr>"

definition negative_base_client :: client where
  "negative_base_client = example_client\<lparr>size_hints := negative_base_hints\<rparr>"

definition inc_conf :: globalconf where
  "inc_conf = update_client 1 (\<lambda>k. k\<lparr>size_hints := inc_hints\<rparr>) example_conf"

definition above_conf :: globalconf where
  "above_conf = update_client 1 (\<lambda>k. k\<lparr>isabove := True\<rparr>) example_conf"

definition ontop_above_conf :: globalconf where
  "ontop_above_conf = update_client 1 (\<lambda>k. k\<lparr>isontop := True, isabove := True\<rparr>) example_conf"

text \<open>
  Client 1 carries the selected tag of screen 0 and client 2 the tag that is not
  selected; nothing is focused and client 1 is the previously focused client.
\<close>

definition focus_conf :: globalconf where
  "focus_conf = example_conf
     \<lparr>screens := (\<lambda>_. \<lparr>client_focus_of = None, prev_client_focus = Some 1,
                          tags = [\<lparr>selected = True, tag_clients = [1]\<rparr>,
                                  \<lparr>selected = False, tag_clients = [2]\<rparr>]\<rparr>),
      screen_focus := Some 0\<rparr>"

definition empty_conf :: globalconf where
  "empty_conf = example_conf\<lparr>clients := [], stack := []\<rparr>"

text \<open>Client 1 is transient for client 2, the focused client of screen 0.\<close>

definition transient_conf :: globalconf where
  "transient_conf = update_client 1 (\<lambda>k. k\<lparr>transient_for := Some 2\<rparr>)
     (example_conf\<lparr>screens := (\<lambda>s. if s = 0
                                   then \<lparr>client_focus_of = Some 2, prev_client_focus = Some 2,
                                         tags = [\<lparr>selected = True, tag_clients = [1, 2]\<rparr>]\<rparr>
                                   else \<lparr>client_focus_of = None, prev_client_focus = None,
                                         tags = []\<rparr>),
                   screen_focus := Some 0\<rparr>)"

text \<open>
  The stacking example: the stack holds exactly \<open>a\<close>, \<open>b\<close> and \<open>c\<close>, in any order;
  \<open>a\<close> is a normal window without transient parent, \<open>b\<close> is transient for \<open>a\<close> and
  in no special layer, \<open>c\<close> is above and is transient for none of the three.
\<close>

definition transient_scene :: "globalconf \<Rightarrow> client_ptr \<Rightarrow> client_ptr \<Rightarrow> client_ptr \<Rightarrow> bool" where
  "transient_scene st a b c =
     (a \<noteq> b \<and> a \<noteq> c \<and> b \<noteq> c
      \<and> stack st \<in> {[a, b, c], [a, c, b], [b, a, c], [b, c, a], [c, a, b], [c, b, a]}
      \<and> \<not> isontop (client_of st a) \<and> \<not> isfullscreen (client_of st a)
      \<and> \<not> isabove (client_of st a) \<and> \<not> isbelow (client_of st a)
      \<and> transient_for (client_of st a) = None \<and> wtype (client_of st a) \<noteq> WINDOW_TYPE_DESKTOP
      \<and> transient_for (client_of st b) = Some a
      \<and> \<not> isontop (client_of st b) \<and> \<not> isfullscreen (client_of st b)
      \<and> \<not> isabove (client_of st b) \<and> \<not> isbelow (client_of st b)
      \<and> isabove (client_of st c)
      \<and> transient_for (client_of st c) \<noteq> Some a
      \<and> transient_for (client_of st c) \<noteq> Some b
      \<and> transient_for (client_of st c) \<noteq> Some c)"




section \<open>The geometry hints\<close>

lemma fp_accurate_bounds:
  assumes "fp_accurate rnd" "0 \<le> l" "l \<le> v" "v \<le> u"
  shows "l * (9999 / 10000) \<le> rnd v \<and> rnd v \<le> u * (10001 / 10000)"
proof -
  have v0: "0 \<le> v" using assms by linarith
  have "\<bar>rnd v - v\<bar> \<le> \<bar>v\<bar> / 2 ^ 53" using assms(1) by (simp add: fp_accurate_def)
  moreover have "\<bar>v\<bar> / 2 ^ 53 \<le> v / 10000" using v0 by (simp add: field_simps)
  ultimately have "\<bar>rnd v - v\<bar> \<le> v / 10000" by linarith
  then have "v - v / 10000 \<le> rnd v" "rnd v \<le> v + v / 10000" by linarith+
  moreover have "l * (9999 / 10000) \<le> v - v / 10000" using assms(3) by simp
  moreover have "v + v / 10000 \<le> u * (10001 / 10000)" using assms(4) by simp
  ultimately show ?thesis by linarith
qed

text \<open>
  The doubles of the aspect example, each operation rounded: \<open>min\<close> is about 4/3,
  the new \<open>dy\<close> about 84 and the new \<open>dx\<close> about 112.
\<close>

lemma aspect_core:
  assumes acc: "fp_accurate rnd"
  defines "mn \<equiv> rnd (4 / 3)"
  defines "dy' \<equiv> rnd (rnd (rnd (100 * mn) + 100) / rnd (rnd (mn * mn) + 1))"
  defines "dx' \<equiv> rnd (dy' * mn)"
  shows "0 < mn \<and> rnd 1 < mn \<and> 0 < rnd 1 \<and> 83 \<le> dy' \<and> dy' < 85 \<and> 111 \<le> dx' \<and> dx' < 113"
proof -
  have mn: "13332 / 10000 \<le> mn \<and> mn \<le> 13335 / 10000"
    using fp_accurate_bounds [OF acc, of "4 / 3" "4 / 3" "4 / 3"] by (simp add: mn_def)
  have r1: "9999 / 10000 \<le> rnd 1 \<and> rnd 1 \<le> 10001 / 10000"
    using fp_accurate_bounds [OF acc, of 1 1 1] by simp
  have a: "1333 / 10 \<le> rnd (100 * mn) \<and> rnd (100 * mn) \<le> 1334 / 10"
    using fp_accurate_bounds [OF acc, of "13332 / 100" "100 * mn" "13335 / 100"] mn by simp
  have b: "2332 / 10 \<le> rnd (rnd (100 * mn) + 100) \<and> rnd (rnd (100 * mn) + 100) \<le> 2335 / 10"
    using fp_accurate_bounds [OF acc, of "2333 / 10" "rnd (100 * mn) + 100" "2334 / 10"] a by simp
  have mm: "(13332 / 10000) * (13332 / 10000) \<le> mn * mn
            \<and> mn * mn \<le> (13335 / 10000) * (13335 / 10000)"
    using mn by (intro conjI mult_mono) auto
  have c: "1777 / 1000 \<le> rnd (mn * mn) \<and> rnd (mn * mn) \<le> 1779 / 1000"
    using fp_accurate_bounds [OF acc, of "(13332 / 10000) * (13332 / 10000)" "mn * mn"
        "(13335 / 10000) * (13335 / 10000)"] mm by simp
  have d: "2776 / 1000 \<le> rnd (rnd (mn * mn) + 1) \<and> rnd (rnd (mn * mn) + 1) \<le> 278 / 100"
    using fp_accurate_bounds [OF acc, of "2777 / 1000" "rnd (mn * mn) + 1" "2779 / 1000"] c by simp
  define B where "B = rnd (rnd (100 * mn) + 100)"
  define D where "D = rnd (rnd (mn * mn) + 1)"
  have q: "(2332 / 10) / (278 / 100) \<le> B / D \<and> B / D \<le> (2335 / 10) / (2776 / 1000)"
    using b d unfolding B_def D_def by (intro conjI frac_le) auto
  have dy: "838 / 10 \<le> dy' \<and> dy' \<le> 842 / 10"
    using fp_accurate_bounds [OF acc, of "(2332 / 10) / (278 / 100)" "B / D"
        "(2335 / 10) / (2776 / 1000)"] q
    unfolding dy'_def B_def D_def by simp
  have p: "(838 / 10) * (13332 / 10000) \<le> dy' * mn \<and> dy' * mn \<le> (842 / 10) * (13335 / 10000)"
    using dy mn by (intro conjI mult_mono) auto
  have dx: "1117 / 10 \<le> dx' \<and> dx' \<le> 1123 / 10"
    using fp_accurate_bounds [OF acc, of "(838 / 10) * (13332 / 10000)" "dy' * mn"
        "(842 / 10) * (13335 / 10000)"] p
    unfolding dx'_def by simp
  show ?thesis using mn r1 dy dx by simp
qed

lemma c_trunc_between:
  assumes "real_of_int n \<le> d" "d < real_of_int n + 2" "0 \<le> n"
  shows "c_trunc d = n \<or> c_trunc d = n + 1"
proof -
  have "0 \<le> d" using assms by linarith
  moreover have "n \<le> \<lfloor>d\<rfloor>" using assms(1) by (simp add: le_floor_iff)
  moreover have "\<lfloor>d\<rfloor> < n + 2" using assms(2) by (simp add: floor_less_iff)
  ultimately show ?thesis by (auto simp add: c_trunc_def)
qed

lemma aspect_hints_base: "hints_base aspect_hints = (0, 0)"
  by (simp add: hints_base_def aspect_hints_def example_hints_def XCB_SIZE_HINT_P_ASPECT_def
      XCB_SIZE_HINT_P_SIZE_def XCB_SIZE_HINT_P_MIN_SIZE_def)

lemma aspect_hints_min: "hints_min aspect_hints = (0, 0)"
  by (simp add: hints_min_def aspect_hints_def example_hints_def XCB_SIZE_HINT_P_ASPECT_def
      XCB_SIZE_HINT_P_SIZE_def XCB_SIZE_HINT_P_MIN_SIZE_def)

lemma aspect_hints_clamp: "hints_clamp aspect_hints 0 0 g = g"
  by (simp add: hints_clamp_def aspect_hints_def example_hints_def XCB_SIZE_HINT_P_ASPECT_def
      XCB_SIZE_HINT_P_MAX_SIZE_def)

lemma aspect_hints_resize_inc: "hints_resize_inc aspect_hints bw bh g = g"
  by (simp add: hints_resize_inc_def aspect_hints_def example_hints_def)

lemma aspect_hints_geometry:
  "size_hints cl = aspect_hints \<Longrightarrow>
   client_geometry_hints env cl g = hints_aspect (fp_round env) aspect_hints 0 0 g"
  by (simp add: client_geometry_hints_def aspect_hints_base aspect_hints_min aspect_hints_clamp
      aspect_hints_resize_inc)

lemma aspect_hints_flag: "flags aspect_hints AND XCB_SIZE_HINT_P_ASPECT \<noteq> 0"
  by (simp add: aspect_hints_def XCB_SIZE_HINT_P_ASPECT_def)

lemma aspect_hints_rounded:
  assumes acc: "fp_accurate rnd"
  shows "\<exists>w h. hints_aspect rnd aspect_hints 0 0
             \<lparr>area_x = gx, area_y = gy, area_width = 100, area_height = 100\<rparr>
           = \<lparr>area_x = gx, area_y = gy, area_width = w, area_height = h\<rparr>
         \<and> (w = 111 \<or> w = 112) \<and> (h = 83 \<or> h = 84)"
proof -
  define mn where "mn = rnd (4 / 3)"
  define dy' where "dy' = rnd (rnd (rnd (100 * mn) + 100) / rnd (rnd (mn * mn) + 1))"
  define dx' where "dx' = rnd (dy' * mn)"
  have core: "0 < mn \<and> rnd 1 < mn \<and> 0 < rnd 1 \<and> 83 \<le> dy' \<and> dy' < 85 \<and> 111 \<le> dx' \<and> dx' < 113"
    unfolding mn_def dy'_def dx'_def by (rule aspect_core [OF acc])
  have w: "c_trunc dx' = 111 \<or> c_trunc dx' = 112"
    using c_trunc_between [of 111 dx'] core by simp
  have h: "c_trunc dy' = 83 \<or> c_trunc dy' = 84"
    using c_trunc_between [of 83 dy'] core by simp
  have eq: "hints_aspect rnd aspect_hints 0 0
             \<lparr>area_x = gx, area_y = gy, area_width = 100, area_height = 100\<rparr>
           = \<lparr>area_x = gx, area_y = gy, area_width = u16 (c_trunc dx'),
               area_height = u16 (c_trunc dy')\<rparr>"
    using core aspect_hints_flag
    by (simp add: hints_aspect_def Let_def mn_def [symmetric] dy'_def [symmetric] dx'_def [symmetric])
       (simp add: aspect_hints_def example_hints_def mn_def dy'_def dx'_def)
  from w h have "(u16 (c_trunc dx') = 111 \<or> u16 (c_trunc dx') = 112)
      \<and> (u16 (c_trunc dy') = 83 \<or> u16 (c_trunc dy') = 84)"
    by (auto simp add: u16_def)
  with eq show ?thesis by blast
qed

lemma aspect_hints_exact:
  "hints_aspect (\<lambda>v. v) aspect_hints 0 0
     \<lparr>area_x = gx, area_y = gy, area_width = 100, area_height = 100\<rparr>
   = \<lparr>area_x = gx, area_y = gy, area_width = 112, area_height = 84\<rparr>"
  using aspect_hints_flag
  by (simp add: hints_aspect_def Let_def)
     (simp add: aspect_hints_def example_hints_def c_trunc_def u16_def)

text \<open>
  Claim C5, as amended. With the hints \<open>min_aspect = max_aspect = 4/3\<close>, base size
  (0,0) and the aspect flag, the proposed 100x100 is resolved to the point of ratio 4/3
  nearest to it: width 112 and height 84 in exact arithmetic, \<open>x\<close> and \<open>y\<close> unchanged.
  With doubles whose operations each have a relative error of at most 2 to the power -53
  the width is 111 or 112 and the height 83 or 84.
\<close>

theorem aspect_example:
  assumes "size_hints cl = aspect_hints"
  shows "(fp_accurate (fp_round env) \<longrightarrow>
            (let r = client_geometry_hints env cl
                       \<lparr>area_x = gx, area_y = gy, area_width = 100, area_height = 100\<rparr>
             in area_x r = gx \<and> area_y r = gy
                \<and> (area_width r = 111 \<or> area_width r = 112)
                \<and> (area_height r = 83 \<or> area_height r = 84)))
         \<and> (fp_round env = (\<lambda>v. v) \<longrightarrow>
              client_geometry_hints env cl
                \<lparr>area_x = gx, area_y = gy, area_width = 100, area_height = 100\<rparr>
              = \<lparr>area_x = gx, area_y = gy, area_width = 112, area_height = 84\<rparr>)"
proof (intro conjI impI)
  assume acc: "fp_accurate (fp_round env)"
  obtain w h where
    "hints_aspect (fp_round env) aspect_hints 0 0
       \<lparr>area_x = gx, area_y = gy, area_width = 100, area_height = 100\<rparr>
     = \<lparr>area_x = gx, area_y = gy, area_width = w, area_height = h\<rparr>"
    "w = 111 \<or> w = 112" "h = 83 \<or> h = 84"
    using aspect_hints_rounded [OF acc, of gx gy] by blast
  then show "let r = client_geometry_hints env cl
                       \<lparr>area_x = gx, area_y = gy, area_width = 100, area_height = 100\<rparr>
             in area_x r = gx \<and> area_y r = gy
                \<and> (area_width r = 111 \<or> area_width r = 112)
                \<and> (area_height r = 83 \<or> area_height r = 84)"
    by (simp add: aspect_hints_geometry [OF assms])
next
  assume "fp_round env = (\<lambda>v. v)"
  then show "client_geometry_hints env cl
                \<lparr>area_x = gx, area_y = gy, area_width = 100, area_height = 100\<rparr>
              = \<lparr>area_x = gx, area_y = gy, area_width = 112, area_height = 84\<rparr>"
    by (simp add: aspect_hints_geometry [OF assms] aspect_hints_exact)
qed

text \<open>The theorem at the example client with these hints, in exact arithmetic.\<close>

theorem aspect_example_witness:
  "size_hints aspect_client = aspect_hints
   \<and> fp_accurate (fp_round example_env)
   \<and> fp_round example_env = (\<lambda>v. v)
   \<and> (let r = client_geometry_hints example_env aspect_client
                 \<lparr>area_x = 0, area_y = 0, area_width = 100, area_height = 100\<rparr>
       in area_x r = 0 \<and> area_y r = 0
          \<and> (area_width r = 111 \<or> area_width r = 112)
          \<and> (area_height r = 83 \<or> area_height r = 84))
   \<and> client_geometry_hints example_env aspect_client
         \<lparr>area_x = 0, area_y = 0, area_width = 100, area_height = 100\<rparr>
       = \<lparr>area_x = 0, area_y = 0, area_width = 112, area_height = 84\<rparr>"
proof -
  have h: "size_hints aspect_client = aspect_hints"
    by (simp add: aspect_client_def example_client_def)
  have e: "fp_round example_env = (\<lambda>v. v)"
    by (simp add: example_env_def)
  have a: "fp_accurate (fp_round example_env)"
    by (simp add: e fp_accurate_def)
  show ?thesis using h e a aspect_example [OF h, of example_env 0 0] by simp
qed

text \<open>
  Claim C5 as stated fails: the proposed 100x100 does not become about 100x75. The
  resolver moves both sides; the result is 112x84.
\<close>

theorem aspect_example_counterexample:
  "client_geometry_hints example_env aspect_client
     \<lparr>area_x = 0, area_y = 0, area_width = 100, area_height = 100\<rparr>
   = \<lparr>area_x = 0, area_y = 0, area_width = 112, area_height = 84\<rparr>"
proof -
  have h: "size_hints aspect_client = aspect_hints"
    by (simp add: aspect_client_def example_client_def)
  have e: "fp_round example_env = (\<lambda>v. v)"
    by (simp add: example_env_def)
  show ?thesis by (simp add: aspect_hints_geometry [OF h] e aspect_hints_exact)
qed

lemma inc_hints_base: "hints_base inc_hints = (0, 0)"
  by (simp add: hints_base_def inc_hints_def example_hints_def XCB_SIZE_HINT_P_RESIZE_INC_def
      XCB_SIZE_HINT_P_SIZE_def XCB_SIZE_HINT_P_MIN_SIZE_def)

lemma inc_hints_min: "hints_min inc_hints = (0, 0)"
  by (simp add: hints_min_def inc_hints_def example_hints_def XCB_SIZE_HINT_P_RESIZE_INC_def
      XCB_SIZE_HINT_P_SIZE_def XCB_SIZE_HINT_P_MIN_SIZE_def)

lemma inc_hints_aspect: "hints_aspect rnd inc_hints bw bh g = g"
  by (simp add: hints_aspect_def inc_hints_def example_hints_def)

lemma inc_hints_clamp: "hints_clamp inc_hints 0 0 g = g"
  by (simp add: hints_clamp_def inc_hints_def example_hints_def XCB_SIZE_HINT_P_RESIZE_INC_def
      XCB_SIZE_HINT_P_MAX_SIZE_def)

lemma inc_hints_geometry:
  "size_hints cl = inc_hints \<Longrightarrow>
   client_geometry_hints env cl g = hints_resize_inc inc_hints 0 0 g"
  by (simp add: client_geometry_hints_def inc_hints_base inc_hints_min inc_hints_aspect inc_hints_clamp)

lemma inc_hints_107_94:
  "hints_resize_inc inc_hints 0 0 \<lparr>area_x = gx, area_y = gy, area_width = 107, area_height = 94\<rparr>
     = \<lparr>area_x = gx, area_y = gy, area_width = 100, area_height = 90\<rparr>"
  by (simp add: hints_resize_inc_def inc_hints_def example_hints_def XCB_SIZE_HINT_P_RESIZE_INC_def
      XCB_SIZE_HINT_BASE_SIZE_def u16_def c_rem_def unsigned_subtract_def Let_def)

lemma inc_hints_105_108:
  "hints_resize_inc inc_hints 0 0 \<lparr>area_x = gx, area_y = gy, area_width = 105, area_height = 108\<rparr>
     = \<lparr>area_x = gx, area_y = gy, area_width = 100, area_height = 100\<rparr>"
  by (simp add: hints_resize_inc_def inc_hints_def example_hints_def XCB_SIZE_HINT_P_RESIZE_INC_def
      XCB_SIZE_HINT_BASE_SIZE_def u16_def c_rem_def unsigned_subtract_def Let_def)

text \<open>One dimension of the increment step, for a proper \<open>uint16_t\<close> and a base that is not negative.\<close>

lemma snap_dimension:
  assumes "0 \<le> w" "w < 65536" "0 \<le> b" "i \<noteq> 0"
  shows "u16 (w - c_rem (u16 (unsigned_subtract (u16 w) b)) i) = w - unsigned_subtract w b mod \<bar>i\<bar>"
    and "0 \<le> unsigned_subtract w b" and "unsigned_subtract w b \<le> w"
    and "0 \<le> w - unsigned_subtract w b mod \<bar>i\<bar>" and "w - unsigned_subtract w b mod \<bar>i\<bar> \<le> w"
    and "w < b \<Longrightarrow> unsigned_subtract w b = 0"
proof -
  define t where "t = unsigned_subtract w b"
  have uw: "u16 w = w" using assms(1,2) by (simp add: u16_def)
  have t0: "0 \<le> t" and tw: "t \<le> w"
    using assms(1,3) by (auto simp add: t_def unsigned_subtract_def)
  have ut: "u16 t = t" using t0 tw assms(2) by (simp add: u16_def)
  have i0: "0 < \<bar>i\<bar>" using assms(4) by simp
  have cr: "c_rem t i = t mod \<bar>i\<bar>" using t0 by (cases "t = 0") (simp_all add: c_rem_def)
  have m0: "0 \<le> t mod \<bar>i\<bar>" using i0 by simp
  have mt: "t mod \<bar>i\<bar> \<le> t" using t0 i0 by (simp add: zmod_le_nonneg_dividend)
  have r0: "0 \<le> w - t mod \<bar>i\<bar>" and rw: "w - t mod \<bar>i\<bar> \<le> w" using m0 mt tw by linarith+
  have ur: "u16 (w - t mod \<bar>i\<bar>) = w - t mod \<bar>i\<bar>" using r0 rw assms(2) by (simp add: u16_def)
  show "u16 (w - c_rem (u16 (unsigned_subtract (u16 w) b)) i) = w - unsigned_subtract w b mod \<bar>i\<bar>"
    using uw ut cr ur by (simp add: t_def)
  show "0 \<le> unsigned_subtract w b" "unsigned_subtract w b \<le> w" using t0 tw by (simp_all add: t_def)
  show "0 \<le> w - unsigned_subtract w b mod \<bar>i\<bar>" "w - unsigned_subtract w b mod \<bar>i\<bar> \<le> w"
    using r0 rw by (simp_all add: t_def)
  show "w < b \<Longrightarrow> unsigned_subtract w b = 0" by (simp add: unsigned_subtract_def)
qed

text \<open>
  Claim C7, as amended. With base size (0,0) and increments of 10 the proposed 107x94
  is resolved to 100x90. When the increment step applies to a rectangle whose width and
  height are proper \<open>uint16_t\<close> values and the base size is not negative, it subtracts
  from each dimension the remainder of (dimension - base), where that difference is
  floored at zero: it is 0 when the dimension is smaller than the base, it is never
  negative and never more than the dimension, and the resulting dimension lies between 0
  and the proposed one.
\<close>

theorem resize_increment_snapping:
  "(size_hints cl = inc_hints \<longrightarrow>
      client_geometry_hints env cl \<lparr>area_x = gx, area_y = gy, area_width = 107, area_height = 94\<rparr>
      = \<lparr>area_x = gx, area_y = gy, area_width = 100, area_height = 90\<rparr>)
   \<and> (flags h AND (XCB_SIZE_HINT_P_RESIZE_INC OR XCB_SIZE_HINT_BASE_SIZE) \<noteq> 0
       \<and> width_inc h \<noteq> 0 \<and> height_inc h \<noteq> 0 \<and> 0 \<le> basew \<and> 0 \<le> baseh
       \<and> 0 \<le> area_width g \<and> area_width g < 65536
       \<and> 0 \<le> area_height g \<and> area_height g < 65536 \<longrightarrow>
      (let r = hints_resize_inc h basew baseh g;
           dw = unsigned_subtract (area_width g) basew;
           dh = unsigned_subtract (area_height g) baseh
       in area_width r = area_width g - dw mod \<bar>width_inc h\<bar>
          \<and> area_height r = area_height g - dh mod \<bar>height_inc h\<bar>
          \<and> 0 \<le> dw \<and> dw \<le> area_width g \<and> 0 \<le> dh \<and> dh \<le> area_height g
          \<and> (area_width g < basew \<longrightarrow> dw = 0 \<and> area_width r = area_width g)
          \<and> (area_height g < baseh \<longrightarrow> dh = 0 \<and> area_height r = area_height g)
          \<and> 0 \<le> area_width r \<and> area_width r \<le> area_width g
          \<and> 0 \<le> area_height r \<and> area_height r \<le> area_height g))"
proof (intro conjI impI)
  assume "size_hints cl = inc_hints"
  then show "client_geometry_hints env cl
               \<lparr>area_x = gx, area_y = gy, area_width = 107, area_height = 94\<rparr>
             = \<lparr>area_x = gx, area_y = gy, area_width = 100, area_height = 90\<rparr>"
    by (simp add: inc_hints_geometry inc_hints_107_94)
next
  assume a: "flags h AND (XCB_SIZE_HINT_P_RESIZE_INC OR XCB_SIZE_HINT_BASE_SIZE) \<noteq> 0
       \<and> width_inc h \<noteq> 0 \<and> height_inc h \<noteq> 0 \<and> 0 \<le> basew \<and> 0 \<le> baseh
       \<and> 0 \<le> area_width g \<and> area_width g < 65536
       \<and> 0 \<le> area_height g \<and> area_height g < 65536"
  have w: "0 \<le> area_width g" "area_width g < 65536" "0 \<le> basew" "width_inc h \<noteq> 0"
    using a by simp_all
  have h: "0 \<le> area_height g" "area_height g < 65536" "0 \<le> baseh" "height_inc h \<noteq> 0"
    using a by simp_all
  have r: "hints_resize_inc h basew baseh g =
             g\<lparr>area_width := area_width g - unsigned_subtract (area_width g) basew mod \<bar>width_inc h\<bar>,
               area_height := area_height g - unsigned_subtract (area_height g) baseh mod \<bar>height_inc h\<bar>\<rparr>"
    using a by (simp add: hints_resize_inc_def Let_def snap_dimension(1) [OF w] snap_dimension(1) [OF h])
  show "let r = hints_resize_inc h basew baseh g;
           dw = unsigned_subtract (area_width g) basew;
           dh = unsigned_subtract (area_height g) baseh
       in area_width r = area_width g - dw mod \<bar>width_inc h\<bar>
          \<and> area_height r = area_height g - dh mod \<bar>height_inc h\<bar>
          \<and> 0 \<le> dw \<and> dw \<le> area_width g \<and> 0 \<le> dh \<and> dh \<le> area_height g
          \<and> (area_width g < basew \<longrightarrow> dw = 0 \<and> area_width r = area_width g)
          \<and> (area_height g < baseh \<longrightarrow> dh = 0 \<and> area_height r = area_height g)
          \<and> 0 \<le> area_width r \<and> area_width r \<le> area_width g
          \<and> 0 \<le> area_height r \<and> area_height r \<le> area_height g"
    using snap_dimension(2-5) [OF w] snap_dimension(2-5) [OF h]
      snap_dimension(6) [OF w] snap_dimension(6) [OF h]
    by (simp add: r Let_def)
qed

text \<open>
  The theorem at the example client with increments of 10, and at a rectangle 30x94
  with base size 50x50 and increments of 7: the width is below the base and stays 30,
  the height loses 44 mod 7 = 2.
\<close>

theorem resize_increment_snapping_witness:
  "size_hints (example_client\<lparr>size_hints := inc_hints\<rparr>) = inc_hints
   \<and> client_geometry_hints example_env (example_client\<lparr>size_hints := inc_hints\<rparr>)
        \<lparr>area_x = 0, area_y = 0, area_width = 107, area_height = 94\<rparr>
      = \<lparr>area_x = 0, area_y = 0, area_width = 100, area_height = 90\<rparr>
   \<and> (flags saturating_hints AND (XCB_SIZE_HINT_P_RESIZE_INC OR XCB_SIZE_HINT_BASE_SIZE) \<noteq> 0
       \<and> width_inc saturating_hints \<noteq> 0 \<and> height_inc saturating_hints \<noteq> 0)
   \<and> unsigned_subtract 30 50 = 0
   \<and> hints_resize_inc saturating_hints 50 50
        \<lparr>area_x = 0, area_y = 0, area_width = 30, area_height = 94\<rparr>
      = \<lparr>area_x = 0, area_y = 0, area_width = 30, area_height = 92\<rparr>"
proof -
  have f: "flags saturating_hints AND (XCB_SIZE_HINT_P_RESIZE_INC OR XCB_SIZE_HINT_BASE_SIZE) \<noteq> 0"
      "width_inc saturating_hints = 7" "height_inc saturating_hints = 7"
    by (simp_all add: saturating_hints_def XCB_SIZE_HINT_P_RESIZE_INC_def XCB_SIZE_HINT_BASE_SIZE_def)
  have u: "unsigned_subtract 30 50 = 0" "unsigned_subtract 94 50 = 44"
    by (simp_all add: unsigned_subtract_def)
  have "area_width (hints_resize_inc saturating_hints 50 50
          \<lparr>area_x = 0, area_y = 0, area_width = 30, area_height = 94\<rparr>) = 30
        \<and> area_height (hints_resize_inc saturating_hints 50 50
          \<lparr>area_x = 0, area_y = 0, area_width = 30, area_height = 94\<rparr>) = 92"
    using f u resize_increment_snapping [of "example_client\<lparr>size_hints := inc_hints\<rparr>" example_env 0 0
        saturating_hints 50 50 "\<lparr>area_x = 0, area_y = 0, area_width = 30, area_height = 94\<rparr>"]
    by (simp add: Let_def)
  moreover have "area_x (hints_resize_inc saturating_hints 50 50
          \<lparr>area_x = 0, area_y = 0, area_width = 30, area_height = 94\<rparr>) = 0
        \<and> area_y (hints_resize_inc saturating_hints 50 50
          \<lparr>area_x = 0, area_y = 0, area_width = 30, area_height = 94\<rparr>) = 0"
    by (simp add: hints_resize_inc_def Let_def)
  ultimately have r: "hints_resize_inc saturating_hints 50 50
        \<lparr>area_x = 0, area_y = 0, area_width = 30, area_height = 94\<rparr>
      = \<lparr>area_x = 0, area_y = 0, area_width = 30, area_height = 92\<rparr>"
    by (cases "hints_resize_inc saturating_hints 50 50
        \<lparr>area_x = 0, area_y = 0, area_width = 30, area_height = 94\<rparr>") simp
  have c: "client_geometry_hints example_env (example_client\<lparr>size_hints := inc_hints\<rparr>)
        \<lparr>area_x = 0, area_y = 0, area_width = 107, area_height = 94\<rparr>
      = \<lparr>area_x = 0, area_y = 0, area_width = 100, area_height = 90\<rparr>"
    using resize_increment_snapping [of "example_client\<lparr>size_hints := inc_hints\<rparr>" example_env 0 0
        saturating_hints 50 50 "\<lparr>area_x = 0, area_y = 0, area_width = 30, area_height = 94\<rparr>"]
    by simp
  show ?thesis using f u r c by simp
qed

text \<open>
  Claim C7 as stated fails for a negative base size, which a client may supply. With
  base width -5 and increments of 10, a proposed width 3 is not smaller than the base,
  the difference is 8, and 3 - 8 stored in the \<open>uint16_t\<close> width wraps around to 65531.
\<close>

theorem resize_increment_negative_base_counterexample:
  "hints_base negative_base_hints = (- 5, 0)
   \<and> unsigned_subtract 3 (- 5) = 8
   \<and> hints_resize_inc negative_base_hints (- 5) 0
        \<lparr>area_x = 0, area_y = 0, area_width = 3, area_height = 100\<rparr>
      = \<lparr>area_x = 0, area_y = 0, area_width = 65531, area_height = 100\<rparr>
   \<and> client_geometry_hints example_env negative_base_client
        \<lparr>area_x = 0, area_y = 0, area_width = 3, area_height = 100\<rparr>
      = \<lparr>area_x = 0, area_y = 0, area_width = 65531, area_height = 100\<rparr>"
proof -
  have f: "flags negative_base_hints AND XCB_SIZE_HINT_P_SIZE \<noteq> 0"
      "flags negative_base_hints AND XCB_SIZE_HINT_P_MIN_SIZE = 0"
      "flags negative_base_hints AND XCB_SIZE_HINT_P_MAX_SIZE = 0"
      "flags negative_base_hints AND XCB_SIZE_HINT_P_ASPECT = 0"
      "flags negative_base_hints AND (XCB_SIZE_HINT_P_RESIZE_INC OR XCB_SIZE_HINT_BASE_SIZE) \<noteq> 0"
    by (simp_all add: negative_base_hints_def XCB_SIZE_HINT_P_SIZE_def XCB_SIZE_HINT_P_MIN_SIZE_def
        XCB_SIZE_HINT_P_MAX_SIZE_def XCB_SIZE_HINT_P_ASPECT_def XCB_SIZE_HINT_P_RESIZE_INC_def
        XCB_SIZE_HINT_BASE_SIZE_def)
  have v: "base_width negative_base_hints = - 5" "base_height negative_base_hints = 0"
      "width_inc negative_base_hints = 10" "height_inc negative_base_hints = 10"
    by (simp_all add: negative_base_hints_def example_hints_def)
  have b: "hints_base negative_base_hints = (- 5, 0)"
    using f v by (simp add: hints_base_def)
  have m: "hints_min negative_base_hints = (- 5, 0)"
    using f v by (simp add: hints_min_def)
  have a: "hints_aspect rnd negative_base_hints bw bh g = g" for rnd bw bh g
    using f by (simp add: hints_aspect_def)
  have c: "hints_clamp negative_base_hints (- 5) 0
             \<lparr>area_x = 0, area_y = 0, area_width = 3, area_height = 100\<rparr>
           = \<lparr>area_x = 0, area_y = 0, area_width = 3, area_height = 100\<rparr>"
    using f by (simp add: hints_clamp_def u16_def)
  have u: "unsigned_subtract 3 (- 5) = 8" "unsigned_subtract 100 0 = 100"
    by (simp_all add: unsigned_subtract_def)
  have r: "c_rem 8 10 = 8" "c_rem 100 10 = 0"
    by (simp_all add: c_rem_def)
  have w: "u16 3 = 3" "u16 100 = 100" "u16 8 = 8" "u16 (- 5) = 65531"
    by (simp_all add: u16_def)
  have i: "hints_resize_inc negative_base_hints (- 5) 0
             \<lparr>area_x = 0, area_y = 0, area_width = 3, area_height = 100\<rparr>
           = \<lparr>area_x = 0, area_y = 0, area_width = 65531, area_height = 100\<rparr>"
    using f(5) v(3,4) by (simp add: hints_resize_inc_def Let_def u r w)
  have g: "client_geometry_hints example_env negative_base_client
             \<lparr>area_x = 0, area_y = 0, area_width = 3, area_height = 100\<rparr>
           = \<lparr>area_x = 0, area_y = 0, area_width = 65531, area_height = 100\<rparr>"
    by (simp add: client_geometry_hints_def negative_base_client_def b m a c i)
  show ?thesis using b u(1) i g by simp
qed


section \<open>The border and the resize\<close>

text \<open>
  Claim C8, as amended. On a dock, a splash window, a desktop window or a fullscreen
  client, a call of the border setter with a width other than 0 changes nothing: a
  positive width is refused for these clients, a negative one for every client. The
  width 0 is not refused; after \<open>client_setborder(c, 0)\<close> the border of any client is 0.
\<close>

theorem setborder_refusal:
  "((wtype (client_of st c) = WINDOW_TYPE_DOCK \<or> wtype (client_of st c) = WINDOW_TYPE_SPLASH
      \<or> wtype (client_of st c) = WINDOW_TYPE_DESKTOP \<or> isfullscreen (client_of st c))
     \<and> width \<noteq> 0 \<longrightarrow> client_setborder st c width = st)
   \<and> border (client_of (client_setborder st c 0) c) = 0"
  by (auto simp add: client_setborder_def Let_def update_client_def hook_property_def emit_def)

text \<open>The theorem at a dock with border 2 and the width 5.\<close>

theorem setborder_refusal_witness:
  "(wtype (client_of dock_conf 1) = WINDOW_TYPE_DOCK \<and> (5::int) \<noteq> 0)
   \<and> client_setborder dock_conf 1 5 = dock_conf
   \<and> border (client_of (client_setborder dock_conf 1 0) 1) = 0"
  using setborder_refusal [of dock_conf 1 5]
  by (simp add: dock_conf_def example_conf_def example_client_def update_client_def)

text \<open>
  Claim C8 as stated fails for the width 0: on a dock of border 2 and outer width 100
  the call sets the border to 0, shrinks the outer geometry and fires the notification.
\<close>

theorem setborder_zero_counterexample:
  "wtype (client_of dock_conf 1) = WINDOW_TYPE_DOCK
   \<and> border (client_of dock_conf 1) = 2
   \<and> border (client_of (client_setborder dock_conf 1 0) 1) = 0
   \<and> area_width (geometry (client_of (client_setborder dock_conf 1 0) 1)) = 96
   \<and> events (client_setborder dock_conf 1 0)
       = [Xcb_configure_border 101 0, Hook_property 1 ''border_width'']"
  by (simp add: dock_conf_def example_conf_def example_client_def example_area_def
      update_client_def client_setborder_def Let_def hook_property_def emit_def u16_def)

text \<open>
  Claim C10. If the internal rectangle that \<open>client_resize\<close> computes from the proposed
  one equals the internal rectangle stored in the client, \<open>client_resize\<close> returns false
  and the state it was given: geometry, internal geometry, screen and events are
  untouched, whatever the proposed outer rectangle is.
\<close>

theorem resize_unchanged:
  "resize_geometry_internal env (client_of st c) geom hints = internal (geometries (client_of st c))
   \<Longrightarrow> client_resize env st c geom hints = (st, False)"
  by (simp add: client_resize_def Let_def)

text \<open>
  The theorem at a client with resize increments of 10 and a proposed outer rectangle
  105x108 that differs from the stored 100x100: the hints bring it back to 100x100.
\<close>

theorem resize_unchanged_witness:
  "resize_geometry_internal example_env (client_of inc_conf 1)
       \<lparr>area_x = 0, area_y = 0, area_width = 105, area_height = 108\<rparr> True
     = internal (geometries (client_of inc_conf 1))
   \<and> \<lparr>area_x = 0, area_y = 0, area_width = 105, area_height = 108\<rparr> \<noteq> geometry (client_of inc_conf 1)
   \<and> client_resize example_env inc_conf 1
       \<lparr>area_x = 0, area_y = 0, area_width = 105, area_height = 108\<rparr> True = (inc_conf, False)"
proof -
  have cl: "client_of inc_conf 1 = example_client\<lparr>win := 101, size_hints := inc_hints\<rparr>"
    by (simp add: inc_conf_def example_conf_def update_client_def)
  have pre: "resize_geometry_internal example_env (example_client\<lparr>win := 101, size_hints := inc_hints\<rparr>)
       \<lparr>area_x = 0, area_y = 0, area_width = 105, area_height = 108\<rparr> True
     = client_geometry_hints example_env (example_client\<lparr>win := 101, size_hints := inc_hints\<rparr>)
       \<lparr>area_x = 0, area_y = 0, area_width = 105, area_height = 108\<rparr>"
    by (simp add: resize_geometry_internal_def example_env_def example_client_def Let_def u16_def)
  have h: "resize_geometry_internal example_env (client_of inc_conf 1)
       \<lparr>area_x = 0, area_y = 0, area_width = 105, area_height = 108\<rparr> True
     = internal (geometries (client_of inc_conf 1))"
    unfolding cl pre
    by (simp add: inc_hints_geometry inc_hints_105_108) (simp add: example_client_def example_area_def)
  have d: "\<lparr>area_x = 0, area_y = 0, area_width = 105, area_height = 108\<rparr> \<noteq> geometry (client_of inc_conf 1)"
    unfolding cl by (simp add: example_client_def example_area_def)
  show ?thesis using h d resize_unchanged [OF h] by simp
qed


section \<open>The special layers exclude one another\<close>

lemma client_of_passthrough [simp]:
  "client_of (hook_property c p st) = client_of st"
  "client_of (client_stack st) = client_of st"
  "client_of (emit e st) = client_of st"
  by (simp_all add: hook_property_def emit_def client_stack_def)

lemma client_of_update_client [simp]:
  "client_of (update_client c f st) = (client_of st)(c := f (client_of st c))"
  by (simp add: update_client_def)

lemma client_setborder_flags [simp]:
  shows "isfullscreen (client_of (client_setborder st c w) d) = isfullscreen (client_of st d)"
    and "ismaxhoriz (client_of (client_setborder st c w) d) = ismaxhoriz (client_of st d)"
    and "ismaxvert (client_of (client_setborder st c w) d) = ismaxvert (client_of st d)"
    and "isabove (client_of (client_setborder st c w) d) = isabove (client_of st d)"
    and "isbelow (client_of (client_setborder st c w) d) = isbelow (client_of st d)"
    and "isontop (client_of (client_setborder st c w) d) = isontop (client_of st d)"
  by (simp_all add: client_setborder_def Let_def)

lemma client_resize_flags [simp]:
  shows "isfullscreen (client_of (fst (client_resize env st c g h)) d) = isfullscreen (client_of st d)"
    and "ismaxhoriz (client_of (fst (client_resize env st c g h)) d) = ismaxhoriz (client_of st d)"
    and "ismaxvert (client_of (fst (client_resize env st c g h)) d) = ismaxvert (client_of st d)"
    and "isabove (client_of (fst (client_resize env st c g h)) d) = isabove (client_of st d)"
    and "isbelow (client_of (fst (client_resize env st c g h)) d) = isbelow (client_of st d)"
    and "isontop (client_of (fst (client_resize env st c g h)) d) = isontop (client_of st d)"
  by (simp_all add: client_resize_def Let_def screen_client_moveto_def)


lemma setabove_False:
  "client_setabove env st c False =
     (if isabove (client_of st c)
      then hook_property c ''above'' (client_stack (update_client c (\<lambda>k. k\<lparr>isabove := False\<rparr>) st))
      else st)"
  by (simp add: client_setabove.simps Let_def)

lemma setbelow_False:
  "client_setbelow env st c False =
     (if isbelow (client_of st c)
      then hook_property c ''below'' (client_stack (update_client c (\<lambda>k. k\<lparr>isbelow := False\<rparr>) st))
      else st)"
  by (simp add: client_setbelow.simps Let_def)

lemma setontop_False:
  "client_setontop env st c False =
     (if isontop (client_of st c)
      then hook_property c ''ontop'' (client_stack (update_client c (\<lambda>k. k\<lparr>isontop := False\<rparr>) st))
      else st)"
  by (simp add: client_setontop.simps Let_def)

lemma setfullscreen_False:
  "client_setfullscreen env st c False =
     (if isfullscreen (client_of st c)
      then
        let st0 = update_client c (\<lambda>k. k\<lparr>isfullscreen := False\<rparr>) st;
            st1 = client_setborder st0 c (border_fs (client_of st0 c))
        in hook_property c ''fullscreen''
             (client_stack (fst (client_resize env st1 c (fullscreen (geometries (client_of st0 c))) False)))
      else st)"
  by (simp add: client_setfullscreen.simps Let_def)

lemma setmaxhoriz_False:
  "client_setmaxhoriz env st c False =
     (if ismaxhoriz (client_of st c)
      then
        let st0 = update_client c (\<lambda>k. k\<lparr>ismaxhoriz := False\<rparr>) st;
            cl = client_of st0 c;
            geom = (geometry cl)\<lparr>area_x := area_x (max_geom (geometries cl)),
                                  area_width := area_width (max_geom (geometries cl))\<rparr>
        in hook_property c ''maximized_horizontal''
             (client_stack (fst (client_resize env st0 c geom (size_hints_honor cl))))
      else st)"
  by (simp add: client_setmaxhoriz.simps Let_def)

lemma setmaxvert_False:
  "client_setmaxvert env st c False =
     (if ismaxvert (client_of st c)
      then
        let st0 = update_client c (\<lambda>k. k\<lparr>ismaxvert := False\<rparr>) st;
            cl = client_of st0 c;
            geom = (geometry cl)\<lparr>area_y := area_y (max_geom (geometries cl)),
                                  area_height := area_height (max_geom (geometries cl))\<rparr>
        in hook_property c ''maximized_vertical''
             (client_stack (fst (client_resize env st0 c geom (size_hints_honor cl))))
      else st)"
  by (simp add: client_setmaxvert.simps Let_def)

lemma setfullscreen_False_flags [simp]:
  shows "isfullscreen (client_of (client_setfullscreen env st c False) d) = (d \<noteq> c \<and> isfullscreen (client_of st d))"
    and "ismaxhoriz (client_of (client_setfullscreen env st c False) d) = ismaxhoriz (client_of st d)"
    and "ismaxvert (client_of (client_setfullscreen env st c False) d) = ismaxvert (client_of st d)"
    and "isabove (client_of (client_setfullscreen env st c False) d) = isabove (client_of st d)"
    and "isbelow (client_of (client_setfullscreen env st c False) d) = isbelow (client_of st d)"
    and "isontop (client_of (client_setfullscreen env st c False) d) = isontop (client_of st d)"
  by (auto simp add: setfullscreen_False Let_def)

lemma setmaxhoriz_False_flags [simp]:
  shows "isfullscreen (client_of (client_setmaxhoriz env st c False) d) = isfullscreen (client_of st d)"
    and "ismaxhoriz (client_of (client_setmaxhoriz env st c False) d) = (d \<noteq> c \<and> ismaxhoriz (client_of st d))"
    and "ismaxvert (client_of (client_setmaxhoriz env st c False) d) = ismaxvert (client_of st d)"
    and "isabove (client_of (client_setmaxhoriz env st c False) d) = isabove (client_of st d)"
    and "isbelow (client_of (client_setmaxhoriz env st c False) d) = isbelow (client_of st d)"
    and "isontop (client_of (client_setmaxhoriz env st c False) d) = isontop (client_of st d)"
  by (auto simp add: setmaxhoriz_False Let_def)

lemma setmaxvert_False_flags [simp]:
  shows "isfullscreen (client_of (client_setmaxvert env st c False) d) = isfullscreen (client_of st d)"
    and "ismaxhoriz (client_of (client_setmaxvert env st c False) d) = ismaxhoriz (client_of st d)"
    and "ismaxvert (client_of (client_setmaxvert env st c False) d) = (d \<noteq> c \<and> ismaxvert (client_of st d))"
    and "isabove (client_of (client_setmaxvert env st c False) d) = isabove (client_of st d)"
    and "isbelow (client_of (client_setmaxvert env st c False) d) = isbelow (client_of st d)"
    and "isontop (client_of (client_setmaxvert env st c False) d) = isontop (client_of st d)"
  by (auto simp add: setmaxvert_False Let_def)

lemma setabove_False_flags [simp]:
  shows "isfullscreen (client_of (client_setabove env st c False) d) = isfullscreen (client_of st d)"
    and "ismaxhoriz (client_of (client_setabove env st c False) d) = ismaxhoriz (client_of st d)"
    and "ismaxvert (client_of (client_setabove env st c False) d) = ismaxvert (client_of st d)"
    and "isabove (client_of (client_setabove env st c False) d) = (d \<noteq> c \<and> isabove (client_of st d))"
    and "isbelow (client_of (client_setabove env st c False) d) = isbelow (client_of st d)"
    and "isontop (client_of (client_setabove env st c False) d) = isontop (client_of st d)"
  by (auto simp add: setabove_False Let_def)

lemma setbelow_False_flags [simp]:
  shows "isfullscreen (client_of (client_setbelow env st c False) d) = isfullscreen (client_of st d)"
    and "ismaxhoriz (client_of (client_setbelow env st c False) d) = ismaxhoriz (client_of st d)"
    and "ismaxvert (client_of (client_setbelow env st c False) d) = ismaxvert (client_of st d)"
    and "isabove (client_of (client_setbelow env st c False) d) = isabove (client_of st d)"
    and "isbelow (client_of (client_setbelow env st c False) d) = (d \<noteq> c \<and> isbelow (client_of st d))"
    and "isontop (client_of (client_setbelow env st c False) d) = isontop (client_of st d)"
  by (auto simp add: setbelow_False Let_def)

lemma setontop_False_flags [simp]:
  shows "isfullscreen (client_of (client_setontop env st c False) d) = isfullscreen (client_of st d)"
    and "ismaxhoriz (client_of (client_setontop env st c False) d) = ismaxhoriz (client_of st d)"
    and "ismaxvert (client_of (client_setontop env st c False) d) = ismaxvert (client_of st d)"
    and "isabove (client_of (client_setontop env st c False) d) = isabove (client_of st d)"
    and "isbelow (client_of (client_setontop env st c False) d) = isbelow (client_of st d)"
    and "isontop (client_of (client_setontop env st c False) d) = (d \<noteq> c \<and> isontop (client_of st d))"
  by (auto simp add: setontop_False Let_def)

lemma setontop_True_flags:
  assumes "\<not> isontop (client_of st c)"
  shows "isontop (client_of (client_setontop env st c True) c)"
    and "\<not> isabove (client_of (client_setontop env st c True) c)"
    and "\<not> isbelow (client_of (client_setontop env st c True) c)"
    and "\<not> isfullscreen (client_of (client_setontop env st c True) c)"
  using assms by (simp_all add: client_setontop.simps [of env st c True] Let_def)

lemma setabove_True_flags:
  assumes "\<not> isabove (client_of st c)"
  shows "isabove (client_of (client_setabove env st c True) c)"
    and "\<not> isontop (client_of (client_setabove env st c True) c)"
    and "\<not> isbelow (client_of (client_setabove env st c True) c)"
    and "\<not> isfullscreen (client_of (client_setabove env st c True) c)"
  using assms by (simp_all add: client_setabove.simps [of env st c True] Let_def)

lemma setbelow_True_flags:
  assumes "\<not> isbelow (client_of st c)"
  shows "isbelow (client_of (client_setbelow env st c True) c)"
    and "\<not> isontop (client_of (client_setbelow env st c True) c)"
    and "\<not> isabove (client_of (client_setbelow env st c True) c)"
    and "\<not> isfullscreen (client_of (client_setbelow env st c True) c)"
  using assms by (simp_all add: client_setbelow.simps [of env st c True] Let_def)

lemma setfullscreen_True_flags:
  assumes "\<not> isfullscreen (client_of st c)"
  shows "isfullscreen (client_of (client_setfullscreen env st c True) c)"
    and "\<not> isontop (client_of (client_setfullscreen env st c True) c)"
    and "\<not> isabove (client_of (client_setfullscreen env st c True) c)"
    and "\<not> isbelow (client_of (client_setfullscreen env st c True) c)"
    and "\<not> ismaxhoriz (client_of (client_setfullscreen env st c True) c)"
    and "\<not> ismaxvert (client_of (client_setfullscreen env st c True) c)"
  using assms by (simp_all add: client_setfullscreen.simps [of env st c True] Let_def)

lemma setter_noop:
  "isfullscreen (client_of st c) = v \<Longrightarrow> client_setfullscreen env st c v = st"
  "ismaxhoriz (client_of st c) = v \<Longrightarrow> client_setmaxhoriz env st c v = st"
  "ismaxvert (client_of st c) = v \<Longrightarrow> client_setmaxvert env st c v = st"
  "isabove (client_of st c) = v \<Longrightarrow> client_setabove env st c v = st"
  "isbelow (client_of st c) = v \<Longrightarrow> client_setbelow env st c v = st"
  "isontop (client_of st c) = v \<Longrightarrow> client_setontop env st c v = st"
  by (simp_all add: client_setfullscreen.simps [of env st c v] client_setmaxhoriz.simps [of env st c v]
      client_setmaxvert.simps [of env st c v] client_setabove.simps [of env st c v]
      client_setbelow.simps [of env st c v] client_setontop.simps [of env st c v])

text \<open>
  Claim C1, as amended. Let the flag that is being set be clear before the call, or let
  at most one of the four flags \<open>ontop\<close>, \<open>above\<close>, \<open>below\<close>, \<open>fullscreen\<close> be set
  before it. Then after \<open>set_ontop(true)\<close> the client is \<open>ontop\<close> and neither \<open>above\<close>,
  \<open>below\<close> nor \<open>fullscreen\<close>; and symmetrically for \<open>set_above(true)\<close>,
  \<open>set_below(true)\<close> and \<open>set_fullscreen(true)\<close>.
\<close>

theorem special_layers_exclusive:
  "(\<not> isontop (client_of st c) \<or> at_most_one_layer (client_of st c) \<longrightarrow>
      (let k = client_of (client_setontop env st c True) c
       in isontop k \<and> \<not> isabove k \<and> \<not> isbelow k \<and> \<not> isfullscreen k))
   \<and> (\<not> isabove (client_of st c) \<or> at_most_one_layer (client_of st c) \<longrightarrow>
      (let k = client_of (client_setabove env st c True) c
       in isabove k \<and> \<not> isontop k \<and> \<not> isbelow k \<and> \<not> isfullscreen k))
   \<and> (\<not> isbelow (client_of st c) \<or> at_most_one_layer (client_of st c) \<longrightarrow>
      (let k = client_of (client_setbelow env st c True) c
       in isbelow k \<and> \<not> isontop k \<and> \<not> isabove k \<and> \<not> isfullscreen k))
   \<and> (\<not> isfullscreen (client_of st c) \<or> at_most_one_layer (client_of st c) \<longrightarrow>
      (let k = client_of (client_setfullscreen env st c True) c
       in isfullscreen k \<and> \<not> isontop k \<and> \<not> isabove k \<and> \<not> isbelow k))"
proof (intro conjI impI)
  assume h: "\<not> isontop (client_of st c) \<or> at_most_one_layer (client_of st c)"
  show "let k = client_of (client_setontop env st c True) c
        in isontop k \<and> \<not> isabove k \<and> \<not> isbelow k \<and> \<not> isfullscreen k"
  proof (cases "isontop (client_of st c)")
    case True
    with h have "at_most_one_layer (client_of st c)" by simp
    with True show ?thesis
      by (simp add: setter_noop(6) [of st c True env] at_most_one_layer_def)
  next
    case False
    then show ?thesis by (simp add: Let_def setontop_True_flags)
  qed
next
  assume h: "\<not> isabove (client_of st c) \<or> at_most_one_layer (client_of st c)"
  show "let k = client_of (client_setabove env st c True) c
        in isabove k \<and> \<not> isontop k \<and> \<not> isbelow k \<and> \<not> isfullscreen k"
  proof (cases "isabove (client_of st c)")
    case True
    with h have "at_most_one_layer (client_of st c)" by simp
    with True show ?thesis
      by (simp add: setter_noop(4) [of st c True env] at_most_one_layer_def)
  next
    case False
    then show ?thesis by (simp add: Let_def setabove_True_flags)
  qed
next
  assume h: "\<not> isbelow (client_of st c) \<or> at_most_one_layer (client_of st c)"
  show "let k = client_of (client_setbelow env st c True) c
        in isbelow k \<and> \<not> isontop k \<and> \<not> isabove k \<and> \<not> isfullscreen k"
  proof (cases "isbelow (client_of st c)")
    case True
    with h have "at_most_one_layer (client_of st c)" by simp
    with True show ?thesis
      by (simp add: setter_noop(5) [of st c True env] at_most_one_layer_def)
  next
    case False
    then show ?thesis by (simp add: Let_def setbelow_True_flags)
  qed
next
  assume h: "\<not> isfullscreen (client_of st c) \<or> at_most_one_layer (client_of st c)"
  show "let k = client_of (client_setfullscreen env st c True) c
        in isfullscreen k \<and> \<not> isontop k \<and> \<not> isabove k \<and> \<not> isbelow k"
  proof (cases "isfullscreen (client_of st c)")
    case True
    with h have "at_most_one_layer (client_of st c)" by simp
    with True show ?thesis
      by (simp add: setter_noop(1) [of st c True env] at_most_one_layer_def)
  next
    case False
    then show ?thesis by (simp add: Let_def setfullscreen_True_flags)
  qed
qed

text \<open>
  The theorem at the state where client 1 is \<open>above\<close>: every hypothesis holds there.
\<close>

theorem special_layers_exclusive_witness:
  "at_most_one_layer (client_of above_conf 1)
   \<and> (let k = client_of (client_setontop example_env above_conf 1 True) 1
       in isontop k \<and> \<not> isabove k \<and> \<not> isbelow k \<and> \<not> isfullscreen k)
   \<and> (let k = client_of (client_setabove example_env above_conf 1 True) 1
       in isabove k \<and> \<not> isontop k \<and> \<not> isbelow k \<and> \<not> isfullscreen k)
   \<and> (let k = client_of (client_setbelow example_env above_conf 1 True) 1
       in isbelow k \<and> \<not> isontop k \<and> \<not> isabove k \<and> \<not> isfullscreen k)
   \<and> (let k = client_of (client_setfullscreen example_env above_conf 1 True) 1
       in isfullscreen k \<and> \<not> isontop k \<and> \<not> isabove k \<and> \<not> isbelow k)"
proof -
  have h: "at_most_one_layer (client_of above_conf 1)"
    by (simp add: above_conf_def example_conf_def example_client_def at_most_one_layer_def)
  show ?thesis using h special_layers_exclusive [of above_conf 1 example_env] by simp
qed

text \<open>
  Claim C1 as stated fails for a prior combination with two flags set: the client is
  \<open>ontop\<close> and \<open>above\<close>, \<open>set_ontop(true)\<close> finds \<open>ontop\<close> already set and returns at
  once, and the client is still \<open>above\<close>.
\<close>

theorem special_layers_counterexample:
  "isontop (client_of ontop_above_conf 1)
   \<and> isabove (client_of ontop_above_conf 1)
   \<and> client_setontop example_env ontop_above_conf 1 True = ontop_above_conf
   \<and> isabove (client_of (client_setontop example_env ontop_above_conf 1 True) 1)"
proof -
  have a: "isontop (client_of ontop_above_conf 1)" "isabove (client_of ontop_above_conf 1)"
    by (simp_all add: ontop_above_conf_def example_conf_def example_client_def)
  have "client_setontop example_env ontop_above_conf 1 True = ontop_above_conf"
    using a(1) by (intro setter_noop(6)) simp
  with a show ?thesis by simp
qed

section \<open>The setters are idempotent\<close>

lemma setmaxhoriz_True_flag:
  "\<not> ismaxhoriz (client_of st c) \<Longrightarrow> ismaxhoriz (client_of (client_setmaxhoriz env st c True) c)"
  by (simp add: client_setmaxhoriz.simps [of env st c True] Let_def)

lemma setmaxvert_True_flag:
  "\<not> ismaxvert (client_of st c) \<Longrightarrow> ismaxvert (client_of (client_setmaxvert env st c True) c)"
  by (simp add: client_setmaxvert.simps [of env st c True] Let_def)

lemma setter_result:
  "isfullscreen (client_of (client_setfullscreen env st c v) c) = v"
  "ismaxhoriz (client_of (client_setmaxhoriz env st c v) c) = v"
  "ismaxvert (client_of (client_setmaxvert env st c v) c) = v"
  "isabove (client_of (client_setabove env st c v) c) = v"
  "isbelow (client_of (client_setbelow env st c v) c) = v"
  "isontop (client_of (client_setontop env st c v) c) = v"
proof -
  show "isfullscreen (client_of (client_setfullscreen env st c v) c) = v"
    by (cases v; cases "isfullscreen (client_of st c)")
       (simp_all add: setfullscreen_True_flags setter_noop(1) [of st c _ env])
  show "ismaxhoriz (client_of (client_setmaxhoriz env st c v) c) = v"
    by (cases v; cases "ismaxhoriz (client_of st c)")
       (simp_all add: setmaxhoriz_True_flag setter_noop(2) [of st c _ env])
  show "ismaxvert (client_of (client_setmaxvert env st c v) c) = v"
    by (cases v; cases "ismaxvert (client_of st c)")
       (simp_all add: setmaxvert_True_flag setter_noop(3) [of st c _ env])
  show "isabove (client_of (client_setabove env st c v) c) = v"
    by (cases v; cases "isabove (client_of st c)")
       (simp_all add: setabove_True_flags setter_noop(4) [of st c _ env])
  show "isbelow (client_of (client_setbelow env st c v) c) = v"
    by (cases v; cases "isbelow (client_of st c)")
       (simp_all add: setbelow_True_flags setter_noop(5) [of st c _ env])
  show "isontop (client_of (client_setontop env st c v) c) = v"
    by (cases v; cases "isontop (client_of st c)")
       (simp_all add: setontop_True_flags setter_noop(6) [of st c _ env])
qed

lemma simple_setter_noop:
  "isurgent (client_of st c) = v \<Longrightarrow> client_seturgent st c v = st"
  "isminimized (client_of st c) = v \<Longrightarrow> client_setminimized st c v = st"
  "issticky (client_of st c) = v \<Longrightarrow> client_setsticky st c v = st"
  "ismodal (client_of st c) = v \<Longrightarrow> client_setmodal st c v = st"
  by (simp_all add: client_seturgent_def client_setminimized_def client_setsticky_def
      client_setmodal_def)

lemma simple_setter_result:
  "isurgent (client_of (client_seturgent st c v) c) = v"
  "isminimized (client_of (client_setminimized st c v) c) = v"
  "issticky (client_of (client_setsticky st c v) c) = v"
  "ismodal (client_of (client_setmodal st c v) c) = v"
  by (auto simp add: client_seturgent_def client_setminimized_def client_setsticky_def
      client_setmodal_def Let_def)

text \<open>
  Claim C6. Each of the ten boolean setters, called with the value the flag already
  has, returns the state it was given: no field of any client changes and the list of
  events, which holds every notification, is the same. And a setter called twice in a
  row with the same value gives, after the second call, the state after the first.
\<close>

theorem setters_idempotent:
  "(isfullscreen (client_of st c) = v \<longrightarrow> client_setfullscreen env st c v = st)
   \<and> client_setfullscreen env (client_setfullscreen env st c v) c v = client_setfullscreen env st c v
   \<and> (ismaxhoriz (client_of st c) = v \<longrightarrow> client_setmaxhoriz env st c v = st)
   \<and> client_setmaxhoriz env (client_setmaxhoriz env st c v) c v = client_setmaxhoriz env st c v
   \<and> (ismaxvert (client_of st c) = v \<longrightarrow> client_setmaxvert env st c v = st)
   \<and> client_setmaxvert env (client_setmaxvert env st c v) c v = client_setmaxvert env st c v
   \<and> (isabove (client_of st c) = v \<longrightarrow> client_setabove env st c v = st)
   \<and> client_setabove env (client_setabove env st c v) c v = client_setabove env st c v
   \<and> (isbelow (client_of st c) = v \<longrightarrow> client_setbelow env st c v = st)
   \<and> client_setbelow env (client_setbelow env st c v) c v = client_setbelow env st c v
   \<and> (isontop (client_of st c) = v \<longrightarrow> client_setontop env st c v = st)
   \<and> client_setontop env (client_setontop env st c v) c v = client_setontop env st c v
   \<and> (issticky (client_of st c) = v \<longrightarrow> client_setsticky st c v = st)
   \<and> client_setsticky (client_setsticky st c v) c v = client_setsticky st c v
   \<and> (isminimized (client_of st c) = v \<longrightarrow> client_setminimized st c v = st)
   \<and> client_setminimized (client_setminimized st c v) c v = client_setminimized st c v
   \<and> (ismodal (client_of st c) = v \<longrightarrow> client_setmodal st c v = st)
   \<and> client_setmodal (client_setmodal st c v) c v = client_setmodal st c v
   \<and> (isurgent (client_of st c) = v \<longrightarrow> client_seturgent st c v = st)
   \<and> client_seturgent (client_seturgent st c v) c v = client_seturgent st c v"
  by (intro conjI impI setter_noop simple_setter_noop setter_result simple_setter_result)

text \<open>The theorem at the example state, where every flag of client 1 is clear.\<close>

theorem setters_idempotent_witness:
  "isfullscreen (client_of example_conf 1) = False
   \<and> client_setfullscreen example_env example_conf 1 False = example_conf
   \<and> ismaxhoriz (client_of example_conf 1) = False
   \<and> client_setmaxhoriz example_env example_conf 1 False = example_conf
   \<and> ismaxvert (client_of example_conf 1) = False
   \<and> client_setmaxvert example_env example_conf 1 False = example_conf
   \<and> isabove (client_of example_conf 1) = False
   \<and> client_setabove example_env example_conf 1 False = example_conf
   \<and> isbelow (client_of example_conf 1) = False
   \<and> client_setbelow example_env example_conf 1 False = example_conf
   \<and> isontop (client_of example_conf 1) = False
   \<and> client_setontop example_env example_conf 1 False = example_conf
   \<and> issticky (client_of example_conf 1) = False
   \<and> client_setsticky example_conf 1 False = example_conf
   \<and> isminimized (client_of example_conf 1) = False
   \<and> client_setminimized example_conf 1 False = example_conf
   \<and> ismodal (client_of example_conf 1) = False
   \<and> client_setmodal example_conf 1 False = example_conf
   \<and> isurgent (client_of example_conf 1) = False
   \<and> client_seturgent example_conf 1 False = example_conf"
proof -
  have h: "isfullscreen (client_of example_conf 1) = False"
      "ismaxhoriz (client_of example_conf 1) = False"
      "ismaxvert (client_of example_conf 1) = False"
      "isabove (client_of example_conf 1) = False"
      "isbelow (client_of example_conf 1) = False"
      "isontop (client_of example_conf 1) = False"
      "issticky (client_of example_conf 1) = False"
      "isminimized (client_of example_conf 1) = False"
      "ismodal (client_of example_conf 1) = False"
      "isurgent (client_of example_conf 1) = False"
    by (simp_all add: example_conf_def example_client_def)
  show ?thesis using h setters_idempotent [of example_conf 1 False example_env] by simp
qed

declare client_of_passthrough [simp del] client_of_update_client [simp del]
  client_setborder_flags [simp del] client_resize_flags [simp del]
  setfullscreen_False_flags [simp del] setmaxhoriz_False_flags [simp del]
  setmaxvert_False_flags [simp del] setabove_False_flags [simp del]
  setbelow_False_flags [simp del] setontop_False_flags [simp del]


section \<open>Focus\<close>

lemma focus_conf_visible:
  "\<not> client_maybevisible focus_conf 2 (screen (client_of focus_conf 2))"
  "client_maybevisible focus_conf 1 (screen (client_of focus_conf 1))"
  by (simp_all add: client_maybevisible_def focus_conf_def example_conf_def example_client_def
      is_client_tagged_def)

text \<open>
  Claim C3, as amended. For a client Y that fails \<open>maybe_visible\<close> on its screen,
  \<open>focus(Y)\<close> returns at once: Y is not focused, no other client is tried and the
  whole state, with the focus fields of every screen, is unchanged. The fallback to the
  previously focused client of the focused screen is made by the bookkeeping step
  \<open>client_focus_update\<close> when it is entered for such a client.
\<close>

theorem focus_ineligible:
  assumes "\<not> client_maybevisible st y (screen (client_of st y))"
  shows "client_focus st (Some y) = Inr st
         \<and> client_focus_update st y =
             (case screen_focus st of
                None \<Rightarrow> Inl Null_dereference
              | Some sf \<Rightarrow> client_focus st (prev_client_focus (screens st sf)))"
  using assms by (simp add: client_focus.simps [of st "Some y"] client_focus_update.simps [of st y])

text \<open>The theorem at client 2 of the example, whose tag is not selected.\<close>

theorem focus_ineligible_witness:
  "\<not> client_maybevisible focus_conf 2 (screen (client_of focus_conf 2))
   \<and> client_focus focus_conf (Some 2) = Inr focus_conf
   \<and> client_focus_update focus_conf 2 = client_focus focus_conf (Some 1)"
proof -
  have s: "screen_focus focus_conf = Some 0" "prev_client_focus (screens focus_conf 0) = Some 1"
    by (simp_all add: focus_conf_def)
  show ?thesis using focus_conf_visible(1) focus_ineligible [OF focus_conf_visible(1)] s by simp
qed

lemma focus_update_visible:
  assumes "client_maybevisible st c (screen (client_of st c))"
    and "screen_focus st = Some sf" and "client_focus_of (screens st sf) = None"
  shows "\<exists>s. client_focus_update st c = Inr s
             \<and> client_focus_of (screens s (phys_screen (client_of st c))) = Some c"
  using assms
  by (simp add: client_focus_update.simps [of st c] Let_def client_seturgent_def
      client_unban_def client_setminimized_def update_client_def update_screen_def emit_def
      hook_property_def)

lemma focus_visible:
  assumes "client_maybevisible st c (screen (client_of st c))"
    and "screen_focus st = Some sf" and "client_focus_of (screens st sf) = None"
    and "\<not> nofocus (client_of st c)"
  shows "\<exists>s. client_focus st (Some c) = Inr s
             \<and> client_focus_of (screens s (phys_screen (client_of st c))) = Some c"
proof -
  obtain s where s: "client_focus_update st c = Inr s"
      "client_focus_of (screens s (phys_screen (client_of st c))) = Some c"
    using focus_update_visible [OF assms(1-3)] by blast
  have "client_focus st (Some c) = Inr (client_setfocus s c (\<not> nofocus (client_of s c)))"
    using assms(1,4) s(1) by (simp add: client_focus.simps [of st "Some c"])
  moreover have "client_focus_of (screens (client_setfocus s c (\<not> nofocus (client_of s c)))
      (phys_screen (client_of st c))) = Some c"
    using s(2) by (simp add: client_setfocus_def emit_def Let_def)
  ultimately show ?thesis by simp
qed

text \<open>
  Claim C3 as stated fails. In the example client 1 is the previously focused client
  and is visible, so an attempt to focus it would succeed; \<open>focus\<close> of client 2 makes
  no such attempt and the screen stays without a focused client.
\<close>

theorem focus_fallback_counterexample:
  "\<not> client_maybevisible focus_conf 2 (screen (client_of focus_conf 2))
   \<and> prev_client_focus (screens focus_conf (screen (client_of focus_conf 2))) = Some 1
   \<and> client_maybevisible focus_conf 1 (screen (client_of focus_conf 1))
   \<and> (case client_focus focus_conf (Some 1) of
         Inl e \<Rightarrow> False
       | Inr s \<Rightarrow> client_focus_of (screens s 0) = Some 1)
   \<and> client_focus focus_conf (Some 2) = Inr focus_conf
   \<and> client_focus_of (screens focus_conf 0) = None"
proof -
  have p: "prev_client_focus (screens focus_conf (screen (client_of focus_conf 2))) = Some 1"
      "client_focus_of (screens focus_conf 0) = None"
    by (simp_all add: focus_conf_def)
  have n: "\<not> nofocus (client_of focus_conf 1)" "screen_focus focus_conf = Some 0"
      "phys_screen (client_of focus_conf 1) = 0"
    by (simp_all add: focus_conf_def example_conf_def example_client_def)
  obtain s where s: "client_focus focus_conf (Some 1) = Inr s"
      "client_focus_of (screens s (phys_screen (client_of focus_conf 1))) = Some 1"
    using focus_visible [OF focus_conf_visible(2) n(2) p(2) n(1)] by blast
  have c: "(case client_focus focus_conf (Some 1) of
         Inl e \<Rightarrow> False
       | Inr s \<Rightarrow> client_focus_of (screens s 0) = Some 1)"
    using s n(3) by simp
  have d: "client_focus focus_conf (Some 2) = Inr focus_conf"
    using focus_conf_visible(1) by (simp add: client_focus.simps [of focus_conf "Some 2"])
  show ?thesis using focus_conf_visible p c d by simp
qed

text \<open>
  Claim C4 against the code. With no client given and a registry that is not empty,
  \<open>client_focus\<close> goes on with the first client. With an empty registry it does not
  return: \<open>c\<close> stays \<open>NULL\<close> and the next statement reads \<open>c->screen\<close>.
\<close>

theorem focus_none:
  "(clients st = [] \<longrightarrow> client_focus st None = Inl Null_dereference)
   \<and> (clients st \<noteq> [] \<longrightarrow> client_focus st None = client_focus st (Some (hd (clients st))))"
  by (cases "clients st") (simp_all add: client_focus.simps [of st])

text \<open>The theorem at the example state without clients and at the one with two.\<close>

theorem focus_none_witness:
  "clients empty_conf = []
   \<and> client_focus empty_conf None = Inl Null_dereference
   \<and> clients example_conf \<noteq> []
   \<and> client_focus example_conf None = client_focus example_conf (Some 1)"
proof -
  have e: "clients empty_conf = []" by (simp add: empty_conf_def)
  have c: "clients example_conf = [1, 2]" by (simp add: example_conf_def)
  show ?thesis using e c focus_none [of empty_conf] focus_none [of example_conf] by simp
qed


section \<open>Unmanaging\<close>

lemma client_of_update_cong: "f = g \<Longrightarrow> st\<lparr>client_of := f\<rparr> = st\<lparr>client_of := g\<rparr>"
  by simp

lemma unmanage_clear_transient:
  "fold (\<lambda>tc sta.
           if transient_for (client_of sta tc) = Some c
           then update_client tc (\<lambda>k. k\<lparr>transient_for := None\<rparr>) sta
           else sta) cs st
   = st\<lparr>client_of := (\<lambda>p. if p \<in> set cs \<and> transient_for (client_of st p) = Some c
                             then (client_of st p)\<lparr>transient_for := None\<rparr>
                             else client_of st p)\<rparr>"
proof (induction cs arbitrary: st)
  case Nil
  then show ?case by simp
next
  case (Cons x xs)
  show ?case
  proof (cases "transient_for (client_of st x) = Some c")
    case True
    then show ?thesis
      apply (simp add: Cons.IH)
      apply (simp add: update_client_def)
      apply (rule client_of_update_cong)
      apply (auto simp add: fun_eq_iff update_client_def)
      done
  next
    case False
    then show ?thesis
      apply (simp add: Cons.IH)
      apply (rule client_of_update_cong)
      apply (auto simp add: fun_eq_iff)
      done
  qed
qed

lemma reset_transient_fields:
  "client_of (unmanage_reset_transient q st) r =
     (if r \<in> set (clients st) \<and> transient_for (client_of st r) = Some q
      then (client_of st r)\<lparr>transient_for := None\<rparr> else client_of st r)"
  "clients (unmanage_reset_transient q st) = clients st"
  "stack (unmanage_reset_transient q st) = stack st"
  "screens (unmanage_reset_transient q st) = screens st"
  by (simp_all add: unmanage_reset_transient_def unmanage_clear_transient)

lemma reset_focus_fields:
  "client_of (unmanage_reset_focus q st) = client_of st"
  "clients (unmanage_reset_focus q st) = clients st"
  "stack (unmanage_reset_focus q st) = stack st"
  "tags (screens (unmanage_reset_focus q st) s) = tags (screens st s)"
  "client_focus_of (screens (unmanage_reset_focus q st) s) =
     (if s = phys_screen (client_of st q) \<and> client_focus_of (screens st s) = Some q
      then None else client_focus_of (screens st s))"
  "prev_client_focus (screens (unmanage_reset_focus q st) s) =
     (if s = phys_screen (client_of st q) \<and> prev_client_focus (screens st s) = Some q
      then None else prev_client_focus (screens st s))"
  by (simp_all add: unmanage_reset_focus_def Let_def update_screen_def client_unfocus_def
      client_unfocus_update_def emit_def)

lemma remove_fields:
  "client_of (unmanage_remove q ts st) = client_of st"
  "clients (unmanage_remove q ts st) = remove1 q (clients st)"
  "stack (unmanage_remove q ts st) = removeAll q (stack st)"
  "tags (screens (unmanage_remove q ts st) s) =
     (if s = ts then map (untag_client q) (tags (screens st s)) else tags (screens st s))"
  "client_focus_of (screens (unmanage_remove q ts st) s) = client_focus_of (screens st s)"
  "prev_client_focus (screens (unmanage_remove q ts st) s) = prev_client_focus (screens st s)"
  by (simp_all add: unmanage_remove_def update_screen_def stack_client_remove_def)

lemma hooks_withdraw_fields:
  "client_of (unmanage_hooks q st) = client_of st"
  "clients (unmanage_hooks q st) = clients st"
  "stack (unmanage_hooks q st) = stack st"
  "screens (unmanage_hooks q st) = screens st"
  "client_of (unmanage_withdraw q st) = client_of st"
  "clients (unmanage_withdraw q st) = clients st"
  "stack (unmanage_withdraw q st) = stack st"
  "screens (unmanage_withdraw q st) = screens st"
  by (simp_all add: unmanage_hooks_def unmanage_withdraw_def emit_def Let_def)

lemma update_client_fields:
  "client_of (update_client c g st) r = (if r = c then g (client_of st c) else client_of st r)"
  "clients (update_client c g st) = clients st"
  "stack (update_client c g st) = stack st"
  "screens (update_client c g st) = screens st"
  by (simp_all add: update_client_def)

lemmas unmanage_fields =
  reset_transient_fields reset_focus_fields remove_fields hooks_withdraw_fields update_client_fields

lemma unmanage_lists:
  "clients (client_unmanage st q) = remove1 q (clients st)"
  "stack (client_unmanage st q) = removeAll q (stack st)"
  by (simp_all add: client_unmanage_def Let_def unmanage_fields)

lemma unmanage_client_of:
  "client_of (client_unmanage st q) r =
     (if r = q then invalid_update (\<lambda>_. True) else id)
       (if r \<in> set (clients st) \<and> transient_for (client_of st r) = Some q
        then (client_of st r)\<lparr>transient_for := None\<rparr> else client_of st r)"
  by (simp add: client_unmanage_def Let_def unmanage_fields)

lemma unmanage_focus_fields:
  "client_focus_of (screens (client_unmanage st q) s) =
     (if s = phys_screen (client_of st q) \<and> client_focus_of (screens st s) = Some q
      then None else client_focus_of (screens st s))"
  "prev_client_focus (screens (client_unmanage st q) s) =
     (if s = phys_screen (client_of st q) \<and> prev_client_focus (screens st s) = Some q
      then None else prev_client_focus (screens st s))"
  by (auto simp add: client_unmanage_def Let_def unmanage_fields)

lemma unmanage_tags:
  "tags (screens (client_unmanage st q) s) =
     (if s = screen (client_of st q) then map (untag_client q) (tags (screens st s))
      else tags (screens st s))"
  by (simp add: client_unmanage_def Let_def unmanage_fields)

lemma list_ex_untag:
  "p \<noteq> q \<Longrightarrow>
   list_ex (\<lambda>t. selected t \<and> is_client_tagged p t) (map (untag_client q) ts)
   = list_ex (\<lambda>t. selected t \<and> is_client_tagged p t) ts"
  by (induction ts) (auto simp add: untag_client_def is_client_tagged_def)

lemma unmanage_maybevisible:
  "p \<noteq> q \<Longrightarrow> client_maybevisible (client_unmanage st q) p s = client_maybevisible st p s"
  by (simp add: client_maybevisible_def unmanage_client_of unmanage_tags list_ex_untag Let_def)

text \<open>
  Claim C9. Let P and Q be two managed clients, P transient for Q. After
  \<open>unmanage(Q)\<close>: P is transient for nobody; P is still a member, as valid as before,
  and as visible as before on every screen, so as focusable; Q is no longer in the
  membership sequence, if that sequence held no client twice, and no longer in the
  stack; Q is neither the focused nor the previously focused client of
  \<open>screens.tab[Q->phys_screen]\<close>, the only screen where the code records the focus of
  Q, and the focus fields of the other screens are as before, so that Q is in the focus
  fields of no screen if it was in those of no other screen before; Q is invalid.
\<close>

theorem unmanage_cleanup:
  assumes "p \<noteq> q" and "p \<in> set (clients st)"
    and "transient_for (client_of st p) = Some q"
  shows "transient_for (client_of (client_unmanage st q) p) = None
         \<and> p \<in> set (clients (client_unmanage st q))
         \<and> invalid (client_of (client_unmanage st q) p) = invalid (client_of st p)
         \<and> (\<forall>s. client_maybevisible (client_unmanage st q) p s = client_maybevisible st p s)
         \<and> (distinct (clients st) \<longrightarrow> q \<notin> set (clients (client_unmanage st q)))
         \<and> q \<notin> set (stack (client_unmanage st q))
         \<and> client_focus_of (screens (client_unmanage st q) (phys_screen (client_of st q))) \<noteq> Some q
         \<and> prev_client_focus (screens (client_unmanage st q) (phys_screen (client_of st q))) \<noteq> Some q
         \<and> (\<forall>s. s \<noteq> phys_screen (client_of st q) \<longrightarrow>
                client_focus_of (screens (client_unmanage st q) s) = client_focus_of (screens st s)
                \<and> prev_client_focus (screens (client_unmanage st q) s) = prev_client_focus (screens st s))
         \<and> ((\<forall>s. s \<noteq> phys_screen (client_of st q) \<longrightarrow>
                 client_focus_of (screens st s) \<noteq> Some q \<and> prev_client_focus (screens st s) \<noteq> Some q)
              \<longrightarrow> (\<forall>s. client_focus_of (screens (client_unmanage st q) s) \<noteq> Some q
                       \<and> prev_client_focus (screens (client_unmanage st q) s) \<noteq> Some q))
         \<and> invalid (client_of (client_unmanage st q) q)"
proof -
  have 1: "transient_for (client_of (client_unmanage st q) p) = None"
    using assms by (simp add: unmanage_client_of)
  have 2: "p \<in> set (clients (client_unmanage st q))"
    using assms(1,2) by (simp add: unmanage_lists)
  have 3: "invalid (client_of (client_unmanage st q) p) = invalid (client_of st p)"
    using assms(1) by (simp add: unmanage_client_of)
  have 4: "\<forall>s. client_maybevisible (client_unmanage st q) p s = client_maybevisible st p s"
    using assms(1) by (simp add: unmanage_maybevisible)
  have 5: "distinct (clients st) \<longrightarrow> q \<notin> set (clients (client_unmanage st q))"
      "q \<notin> set (stack (client_unmanage st q))"
    by (simp_all add: unmanage_lists)
  have 6: "client_focus_of (screens (client_unmanage st q) (phys_screen (client_of st q))) \<noteq> Some q"
      "prev_client_focus (screens (client_unmanage st q) (phys_screen (client_of st q))) \<noteq> Some q"
    by (simp_all add: unmanage_focus_fields)
  have 7: "\<forall>s. s \<noteq> phys_screen (client_of st q) \<longrightarrow>
                client_focus_of (screens (client_unmanage st q) s) = client_focus_of (screens st s)
                \<and> prev_client_focus (screens (client_unmanage st q) s) = prev_client_focus (screens st s)"
    by (simp add: unmanage_focus_fields)
  have 8: "invalid (client_of (client_unmanage st q) q)"
    by (simp add: unmanage_client_of)
  have 9: "(\<forall>s. s \<noteq> phys_screen (client_of st q) \<longrightarrow>
                 client_focus_of (screens st s) \<noteq> Some q \<and> prev_client_focus (screens st s) \<noteq> Some q)
              \<longrightarrow> (\<forall>s. client_focus_of (screens (client_unmanage st q) s) \<noteq> Some q
                       \<and> prev_client_focus (screens (client_unmanage st q) s) \<noteq> Some q)"
    using 6 7 by metis
  show ?thesis using 1 2 3 4 5 6 7 8 9 by blast
qed

text \<open>
  The theorem at the example where client 1 is transient for client 2, which is the
  focused and the previously focused client of screen 0 and of no other screen.
\<close>

theorem unmanage_cleanup_witness:
  "(1::nat) \<noteq> 2 \<and> 1 \<in> set (clients transient_conf) \<and> 2 \<in> set (clients transient_conf)
   \<and> distinct (clients transient_conf)
   \<and> transient_for (client_of transient_conf 1) = Some 2
   \<and> client_focus_of (screens transient_conf 0) = Some 2
   \<and> transient_for (client_of (client_unmanage transient_conf 2) 1) = None
   \<and> 1 \<in> set (clients (client_unmanage transient_conf 2))
   \<and> \<not> invalid (client_of (client_unmanage transient_conf 2) 1)
   \<and> client_maybevisible (client_unmanage transient_conf 2) 1 0
   \<and> 2 \<notin> set (clients (client_unmanage transient_conf 2))
   \<and> 2 \<notin> set (stack (client_unmanage transient_conf 2))
   \<and> (\<forall>s. client_focus_of (screens (client_unmanage transient_conf 2) s) \<noteq> Some 2
           \<and> prev_client_focus (screens (client_unmanage transient_conf 2) s) \<noteq> Some 2)
   \<and> invalid (client_of (client_unmanage transient_conf 2) 2)"
proof -
  have h: "(1::nat) \<noteq> 2" "1 \<in> set (clients transient_conf)"
      "transient_for (client_of transient_conf 1) = Some 2"
    by (simp_all add: transient_conf_def example_conf_def update_client_def)
  have g: "2 \<in> set (clients transient_conf)" "distinct (clients transient_conf)"
    by (simp_all add: transient_conf_def example_conf_def update_client_def)
  have f: "client_focus_of (screens transient_conf 0) = Some 2"
      "phys_screen (client_of transient_conf 2) = 0" "\<not> invalid (client_of transient_conf 1)"
    by (simp_all add: transient_conf_def example_conf_def example_client_def update_client_def)
  have v: "client_maybevisible transient_conf 1 0"
    by (simp add: client_maybevisible_def transient_conf_def example_conf_def example_client_def
        update_client_def is_client_tagged_def)
  have o: "\<forall>s. s \<noteq> phys_screen (client_of transient_conf 2) \<longrightarrow>
             client_focus_of (screens transient_conf s) \<noteq> Some 2
             \<and> prev_client_focus (screens transient_conf s) \<noteq> Some 2"
    by (simp add: transient_conf_def example_conf_def example_client_def update_client_def)
  show ?thesis using h g f v o unmanage_cleanup [OF h] by simp
qed


section \<open>Stacking\<close>






lemma scene_frame:
  "client_of st' = client_of st \<Longrightarrow> stack st' = stack st \<Longrightarrow>
   transient_scene st' a b c = transient_scene st a b c"
  by (simp add: transient_scene_def)












end
